theory Spec2Isabelle
  imports Complex_Main
begin

section \<open>Python values, errors and HTTP exchanges\<close>

text \<open>
  A decoded JSON document, as \<^verbatim>\<open>json.loads\<close> builds it and as the \<^verbatim>\<open>json=\<close>
  argument of \<^verbatim>\<open>requests\<close> takes it. A dict is an association list that holds every
  key once. \<open>JFloat\<close> carries the exact rational a Python float stands for.
\<close>

datatype json =
    JNull
  | JBool bool
  | JInt int
  | JFloat rat
  | JStr string
  | JArr "json list"
  | JObj "(string \<times> json) list"

datatype key = KStr string | KInt int

datatype py_error =
    KeyError key
  | IndexError
  | TypeError
  | AttributeError
  | JSONDecodeError
  | SystemError
  | FileNotFoundError
  | ZeroDivisionError
  | CryptoError
  | RequestException

text \<open>
  Subscription \<^verbatim>\<open>v[k]\<close> on a decoded JSON value: a dict raises KeyError on a missing key
  (its keys are all strings), a list or a string takes integer indices, negative ones counted
  from the end, and raises IndexError out of range; any other combination is a TypeError.
\<close>

definition py_index :: "'a list \<Rightarrow> int \<Rightarrow> py_error + 'a" where
  "py_index xs i =
     (if 0 \<le> i \<and> i < int (length xs) then Inr (xs ! nat i)
      else if i < 0 \<and> - int (length xs) \<le> i then Inr (xs ! nat (int (length xs) + i))
      else Inl IndexError)"

fun py_getitem :: "json \<Rightarrow> key \<Rightarrow> py_error + json" where
  "py_getitem (JObj kvs) (KStr s) =
     (case map_of kvs s of Some v \<Rightarrow> Inr v | None \<Rightarrow> Inl (KeyError (KStr s)))"
| "py_getitem (JObj kvs) (KInt i) = Inl (KeyError (KInt i))"
| "py_getitem (JArr xs) (KInt i) = py_index xs i"
| "py_getitem (JStr s) (KInt i) =
     (case py_index s i of Inl e \<Rightarrow> Inl e | Inr c \<Rightarrow> Inr (JStr [c]))"
| "py_getitem v k = Inl TypeError"

text \<open>
  Concatenation \<^verbatim>\<open>'prefix' + v\<close> of a string literal with a decoded JSON value: Python
  raises TypeError unless the value is a string.
\<close>

definition py_concat :: "string \<Rightarrow> json \<Rightarrow> py_error + string" where
  "py_concat prefix v = (case v of JStr s \<Rightarrow> Inr (prefix @ s) | _ \<Rightarrow> Inl TypeError)"

text \<open>
  \<^verbatim>\<open>str.replace(old, new)\<close>: every non-overlapping occurrence, left to right; an empty
  \<open>old\<close> matches before every character and at the end.
\<close>

function str_replace :: "string \<Rightarrow> string \<Rightarrow> string \<Rightarrow> string" where
  "str_replace old new s =
     (if old = [] then new @ concat (map (\<lambda>c. c # new) s)
      else if s = [] then []
      else if take (length old) s = old
        then new @ str_replace old new (drop (length old) s)
      else hd s # str_replace old new (tl s))"
  by pat_completeness auto
termination
  by (relation "measure (\<lambda>(old, new, s). length s)") auto

declare str_replace.simps [simp del]

text \<open>\<^verbatim>\<open>str(n)\<close> for a non-negative integer: its decimal digits.\<close>

definition digit_char :: "nat \<Rightarrow> char" where
  "digit_char d = ''0123456789'' ! d"

function str_nat :: "nat \<Rightarrow> string" where
  "str_nat n = (if n < 10 then [digit_char n] else str_nat (n div 10) @ [digit_char (n mod 10)])"
  by pat_completeness auto
termination
  by (relation "measure (\<lambda>n. n)") auto

declare str_nat.simps [simp del]

subsection \<open>Requests, responses and the world outside the process\<close>

datatype http_method = GET | POST | PUT

datatype payload = NoBody | JsonBody json | DataBody string

text \<open>
  One call of \<^verbatim>\<open>requests.get/post/put\<close>. A header value is \<open>None\<close> where the Python
  dict holds \<^verbatim>\<open>None\<close>. Of a response the code reads \<^verbatim>\<open>r.ok\<close> and
  \<^verbatim>\<open>json.loads(r.text)\<close>; the latter is kept as its outcome, the decoded document or
  the error raised. The \<^verbatim>\<open>timeout\<close> argument of the authentication calls belongs to the
  transport: running into it is one of the errors the transport may raise.
\<close>

record request =
  rq_method :: http_method
  rq_url :: string
  rq_headers :: "(string \<times> string option) list"
  rq_body :: payload

record response =
  rs_ok :: bool
  rs_json :: "py_error + json"

record text_file =
  st_size :: int
  file_lines :: "string list"

text \<open>
  What the code does not contain and only calls: the remote servers (\<open>srv\<close> answers a
  request given all requests sent before it, or fails in transport), the clock, the file
  system, and the library functions for base64, JSON text, signing and random bytes.
  Times are microseconds. \<open>file_system\<close> gives, for a path, the size in bytes that
  \<^verbatim>\<open>stat\<close> reports and the lines that reading the file in text mode yields, each with
  its line end. A character is one byte here, as in an ASCII file with line-feed line ends,
  so that the UTF-8 encoding of what was read is what was read. \<open>py_str\<close> is
  \<^verbatim>\<open>str\<close> on a decoded value that is not a string.
\<close>

record env =
  srv :: "request list \<Rightarrow> request \<Rightarrow> py_error + response"
  utcnow :: "request list \<Rightarrow> int"
  file_system :: "string \<Rightarrow> text_file option"
  b64encode :: "string \<Rightarrow> string"
  json_dumps :: "json \<Rightarrow> string"
  py_str :: "json \<Rightarrow> string"
  urandom :: "request list \<Rightarrow> string"
  sign_sha512 :: "string \<Rightarrow> string \<Rightarrow> py_error + string"

text \<open>
  The mutable state outside the objects: the requests sent so far (oldest first), the
  process environment \<^verbatim>\<open>os.environ\<close>, and the key/value content of each dot-env file.
\<close>

record world =
  trace :: "request list"
  environ :: "string \<rightharpoonup> string"
  dotenv :: "string \<Rightarrow> string \<rightharpoonup> string"

text \<open>Sequencing of steps that may raise: the first error ends the computation.\<close>

definition bind :: "(py_error + 'a) \<times> 's \<Rightarrow> ('a \<Rightarrow> 's \<Rightarrow> (py_error + 'b) \<times> 's) \<Rightarrow> (py_error + 'b) \<times> 's" where
  "bind r f = (case r of (Inl err, s) \<Rightarrow> (Inl err, s) | (Inr x, s) \<Rightarrow> f x s)"

definition send :: "env \<Rightarrow> request \<Rightarrow> world \<Rightarrow> (py_error + response) \<times> world" where
  "send e rq w = (srv e (trace w) rq, w\<lparr>trace := trace w @ [rq]\<rparr>)"

text \<open>
  \<^verbatim>\<open>load_dotenv(path)\<close> copies the file's keys into the environment without overriding a
  variable that is already set; \<^verbatim>\<open>set_key(path, key, value)\<close> rewrites the key in the
  file (it calls \<^verbatim>\<open>value.replace\<close>, so a value that is no string raises AttributeError)
  and leaves the environment alone.
\<close>

definition load_dotenv :: "string \<Rightarrow> world \<Rightarrow> world" where
  "load_dotenv path w = w\<lparr>environ := dotenv w path ++ environ w\<rparr>"

definition set_key :: "string \<Rightarrow> string \<Rightarrow> json \<Rightarrow> world \<Rightarrow> (py_error + unit) \<times> world" where
  "set_key path k v w =
     (case v of
        JStr s \<Rightarrow> (Inr (), w\<lparr>dotenv := (dotenv w)(path := (dotenv w path)(k \<mapsto> s))\<rparr>)
      | _ \<Rightarrow> (Inl AttributeError, w))"

definition json_of_env :: "string option \<Rightarrow> json" where
  "json_of_env v = (case v of None \<Rightarrow> JNull | Some s \<Rightarrow> JStr s)"

section \<open>authentication.py\<close>

text \<open>
  The \<^verbatim>\<open>AnaplanAuth\<close> object. The constructor sets the credential attributes of its
  own kind only, so each is optional here and reading an unset one raises AttributeError.
  \<open>a_token\<close> and \<open>a_expires_at\<close> are \<^verbatim>\<open>_token\<close> and \<^verbatim>\<open>_expires_at\<close>, the
  values behind the properties \<^verbatim>\<open>token\<close> and \<^verbatim>\<open>expires_at\<close>; \<open>public_cert\<close>
  and \<open>private_key\<close> are the attributes \<^verbatim>\<open>public\<close> and \<^verbatim>\<open>private\<close>.
\<close>

record anaplan_auth =
  via :: string
  creds :: "string option"
  b64creds :: "string option"
  public_cert :: "string option"
  private_key :: "string option"
  file_env :: "string option"
  a_token :: "string option"
  a_expires_at :: "int option"

definition auth_init :: "env \<Rightarrow> string \<Rightarrow> string list \<Rightarrow> py_error + anaplan_auth" where
  "auth_init e v cs =
     (let self = \<lparr>via = v, creds = None, b64creds = None, public_cert = None, private_key = None,
                   file_env = None, a_token = None, a_expires_at = None\<rparr>
      in if v = ''basic'' then
           (case cs of
              [] \<Rightarrow> Inl IndexError
            | c # _ \<Rightarrow> Inr (self\<lparr>creds := Some c, b64creds := Some (b64encode e c)\<rparr>))
         else if v = ''certificate'' then
           (case cs of
              p # k # _ \<Rightarrow> Inr (self\<lparr>public_cert := Some p, private_key := Some k\<rparr>)
            | _ \<Rightarrow> Inl IndexError)
         else if v = ''oauth_refresh'' then
           (case cs of
              [] \<Rightarrow> Inl IndexError
            | f # _ \<Rightarrow> Inr (self\<lparr>file_env := Some f\<rparr>))
         else Inr self)"

definition timedelta_minutes :: "int \<Rightarrow> int" where
  "timedelta_minutes m = m * 60 * 1000000"

definition attr :: "'a option \<Rightarrow> py_error + 'a" where
  "attr v = (case v of None \<Rightarrow> Inl AttributeError | Some x \<Rightarrow> Inr x)"

definition read_text :: "env \<Rightarrow> string \<Rightarrow> py_error + string" where
  "read_text e path =
     (case file_system e path of None \<Rightarrow> Inl FileNotFoundError | Some f \<Rightarrow> Inr (concat (file_lines f)))"

text \<open>
  \<^verbatim>\<open>AnaplanAuth.validate\<close>. The result is the bearer string, or \<open>None\<close> where the
  Python function ends without a \<^verbatim>\<open>return\<close>.
\<close>

definition validate :: "env \<Rightarrow> json \<Rightarrow> world \<Rightarrow> (py_error + string option) \<times> world" where
  "validate e token w =
     bind (py_getitem token (KStr ''status''), w) (\<lambda>status w.
       if status = JStr ''FAILURE_BAD_CREDENTIAL'' then (Inl SystemError, w)
       else
     bind (py_getitem token (KStr ''tokenInfo''), w) (\<lambda>info w.
     bind (py_getitem info (KStr ''tokenValue''), w) (\<lambda>v w.
     bind (py_concat ''AnaplanAuthToken '' v, w) (\<lambda>token_value w.
     bind (send e \<lparr>rq_method = GET, rq_url = ''https://auth.anaplan.com/token/validate'',
                   rq_headers = [(''Authorization'', Some token_value)],
                   rq_body = NoBody\<rparr> w) (\<lambda>req w.
     bind (rs_json req, w) (\<lambda>j w.
     bind (py_getitem j (KStr ''statusMessage''), w) (\<lambda>msg w.
       if msg = JStr ''Token validated'' then (Inr (Some token_value), w)
       else (Inr None, w))))))))"

text \<open>
  \<^verbatim>\<open>AnaplanAuth.cert_token\<close>. Loading the private key and signing the random bytes is
  the one library step \<open>sign_sha512\<close>.
\<close>

definition cert_token :: "env \<Rightarrow> string \<Rightarrow> string \<Rightarrow> world \<Rightarrow> (py_error + json) \<times> world" where
  "cert_token e pub_cert priv_key w =
     bind (read_text e pub_cert, w) (\<lambda>st_cert w.
     bind (read_text e priv_key, w) (\<lambda>st_key w.
     bind (sign_sha512 e st_key (urandom e (trace w)), w) (\<lambda>signed_str w.
       let random_str = urandom e (trace w);
           canonical = str_replace ''-----END CERTIFICATE-----'' []
                         (str_replace ''-----BEGIN CERTIFICATE-----'' []
                           (str_replace [CHR 0x0A] [] st_cert));
           auth_headers = [(''AUTHORIZATION'', Some (''CACertificate '' @ canonical))];
           body = JObj [(''encodedData'', JStr (b64encode e random_str)),
                        (''encodedSignedData'', JStr (b64encode e signed_str))]
       in
     bind (send e \<lparr>rq_method = POST, rq_url = ''https://auth.anaplan.com/token/authenticate'',
                   rq_headers = auth_headers,
                   rq_body = DataBody (json_dumps e body)\<rparr> w) (\<lambda>req w.
       (rs_json req, w)))))"

text \<open>\<^verbatim>\<open>AnaplanAuth.oauth_refresh\<close>.\<close>

definition oauth_refresh :: "env \<Rightarrow> string \<Rightarrow> world \<Rightarrow> (py_error + json) \<times> world" where
  "oauth_refresh e path w0 =
     (let w = load_dotenv path w0;
          body = JObj [(''refresh_token'', json_of_env (environ w ''refresh_token'')),
                       (''client_id'', json_of_env (environ w ''client_id'')),
                       (''grant_type'', JStr ''refresh_token'')]
      in
     bind (send e \<lparr>rq_method = POST, rq_url = ''https://us1a.app.anaplan.com/oauth/token'',
                   rq_headers = [(''Content-Type'', Some ''application/json'')],
                   rq_body = JsonBody body\<rparr> w) (\<lambda>req w.
     bind (rs_json req, w) (\<lambda>j w.
     bind (py_getitem j (KStr ''refresh_token''), w) (\<lambda>new_refresh_token w.
     bind (set_key path ''refresh_token'' new_refresh_token w) (\<lambda>_ w.
       (Inr j, w))))))"

text \<open>
  \<^verbatim>\<open>AnaplanAuth.get_token\<close>. The clock is read after the exchange, at the history
  reached then. A step that raises leaves the object as it was.
\<close>

definition get_token :: "env \<Rightarrow> anaplan_auth \<Rightarrow> world \<Rightarrow> (py_error + string option) \<times> anaplan_auth \<times> world" where
  "get_token e self w =
     (if via self = ''basic'' then
        (case bind (attr (b64creds self), w) (\<lambda>b w.
              bind (send e \<lparr>rq_method = POST,
                            rq_url = ''https://auth.anaplan.com/token/authenticate'',
                            rq_headers = [(''Authorization'', Some (''Basic '' @ b))],
                            rq_body = NoBody\<rparr> w) (\<lambda>req w.
              bind (rs_json req, w) (\<lambda>j w.
                validate e j w)))
         of (Inl err, w') \<Rightarrow> (Inl err, self, w')
          | (Inr tok, w') \<Rightarrow>
              (Inr tok,
               self\<lparr>a_token := tok,
                    a_expires_at := Some (utcnow e (trace w') + timedelta_minutes 35)\<rparr>, w'))
      else if via self = ''certificate'' then
        (case bind (attr (public_cert self), w) (\<lambda>pub w.
              bind (attr (private_key self), w) (\<lambda>priv w.
              bind (cert_token e pub priv w) (\<lambda>j w.
                validate e j w)))
         of (Inl err, w') \<Rightarrow> (Inl err, self, w')
          | (Inr tok, w') \<Rightarrow>
              (Inr tok,
               self\<lparr>a_token := tok,
                    a_expires_at := Some (utcnow e (trace w') + timedelta_minutes 35)\<rparr>, w'))
      else if via self = ''oauth_refresh'' then
        (case bind (attr (file_env self), w) (\<lambda>path w.
              bind (oauth_refresh e path w) (\<lambda>j w.
              bind (py_getitem j (KStr ''access_token''), w) (\<lambda>v w.
              bind (py_concat ''AnaplanAuthToken '' v, w) (\<lambda>t w.
                (Inr (Some t), w)))))
         of (Inl err, w') \<Rightarrow> (Inl err, self, w')
          | (Inr tok, w') \<Rightarrow>
              (Inr tok,
               self\<lparr>a_token := tok,
                    a_expires_at := Some (utcnow e (trace w') + timedelta_minutes 35)\<rparr>, w'))
      else (Inr (Some ''Invalid authentication method; please select basic, certificate or oauth type''),
            self, w))"

text \<open>\<^verbatim>\<open>AnaplanAuth.refresh\<close>: the current token, whatever it is, goes into the header.\<close>

definition refresh :: "env \<Rightarrow> anaplan_auth \<Rightarrow> world \<Rightarrow> (py_error + string option) \<times> anaplan_auth \<times> world" where
  "refresh e self w =
     (case bind (send e \<lparr>rq_method = POST, rq_url = ''https://auth.anaplan.com/token/refresh'',
                          rq_headers = [(''Authorization'', a_token self)],
                          rq_body = NoBody\<rparr> w) (\<lambda>request w.
           bind (rs_json request, w) (\<lambda>full_token_json w.
           bind (py_getitem full_token_json (KStr ''tokenInfo''), w) (\<lambda>info w.
           bind (py_getitem info (KStr ''tokenValue''), w) (\<lambda>v w.
           bind (py_concat ''AnaplanAuthToken '' v, w) (\<lambda>t w.
             (Inr (Some t), w))))))
      of (Inl err, w') \<Rightarrow> (Inl err, self, w')
       | (Inr tok, w') \<Rightarrow>
           (Inr tok,
            self\<lparr>a_token := tok,
                 a_expires_at := Some (utcnow e (trace w') + timedelta_minutes 35)\<rparr>, w'))"

section \<open>dictionary.py: the model connection\<close>

text \<open>
  The \<^verbatim>\<open>AnaplanModel\<close> object. \<open>login\<close> is the \<^verbatim>\<open>AnaplanAuth\<close> object it was
  given, held here by value; \<open>token_value\<close> is \<^verbatim>\<open>_token_value\<close>.
\<close>

record anaplan_model =
  login :: anaplan_auth
  token_value :: "string option"
  expires_at :: "int option"
  ws_id :: string
  model_id :: string
  header :: "(string \<times> string option) list"
  url :: string
  task_header :: "(string \<times> string option) list"
  json_header :: "(string \<times> string option) list"
  task_body :: json
  file_header :: "(string \<times> string option) list"
  chunk_size :: int

definition model_init :: "env \<Rightarrow> anaplan_auth \<Rightarrow> string \<Rightarrow> string \<Rightarrow> world \<Rightarrow> (py_error + anaplan_model) \<times> world" where
  "model_init e lg ws mdl w =
     (case get_token e lg w of
        (Inl err, lg', w') \<Rightarrow> (Inl err, w')
      | (Inr tok, lg', w') \<Rightarrow>
          (Inr \<lparr>login = lg',
                token_value = tok,
                expires_at = a_expires_at lg',
                ws_id = ws,
                model_id = mdl,
                header = [(''Authorization'', tok)],
                url = ''https://api.anaplan.com/2/0/workspaces/'' @ ws @ ''/models/'' @ mdl @ ''/'',
                task_header = [(''Authorization'', tok), (''Content-Type'', Some ''application/json'')],
                json_header = [(''Authorization'', tok), (''Accept'', Some ''application/json'')],
                task_body = JObj [(''localeName'', JStr ''en_US'')],
                file_header = [(''Authorization'', tok),
                               (''Content-Type'', Some ''application/octet-stream'')],
                chunk_size = 50 * 1048576\<rparr>, w'))"

text \<open>\<^verbatim>\<open>AnaplanModel.get_token\<close>: two assignments, to the token value and to the expiry.\<close>

definition model_get_token :: "env \<Rightarrow> anaplan_model \<Rightarrow> world \<Rightarrow> (py_error + unit) \<times> anaplan_model \<times> world" where
  "model_get_token e self w =
     (case get_token e (login self) w of
        (Inl err, lg', w') \<Rightarrow> (Inl err, self\<lparr>login := lg'\<rparr>, w')
      | (Inr tok, lg', w') \<Rightarrow>
          (Inr (), self\<lparr>login := lg', token_value := tok, expires_at := a_expires_at lg'\<rparr>, w'))"

text \<open>
  The six metadata properties: one GET with \<open>header\<close>, then one field of the answer.
  \<open>imports_list\<close> is the property \<^verbatim>\<open>imports\<close>.
\<close>

definition get_collection :: "env \<Rightarrow> anaplan_model \<Rightarrow> string \<Rightarrow> string \<Rightarrow> world \<Rightarrow> (py_error + json) \<times> world" where
  "get_collection e self path field w =
     bind (send e \<lparr>rq_method = GET, rq_url = url self @ path, rq_headers = header self,
                   rq_body = NoBody\<rparr> w) (\<lambda>r w.
     bind (rs_json r, w) (\<lambda>j w.
       (py_getitem j (KStr field), w)))"

definition imports_list :: "env \<Rightarrow> anaplan_model \<Rightarrow> world \<Rightarrow> (py_error + json) \<times> world" where
  "imports_list e self = get_collection e self ''imports'' ''imports''"

definition actions :: "env \<Rightarrow> anaplan_model \<Rightarrow> world \<Rightarrow> (py_error + json) \<times> world" where
  "actions e self = get_collection e self ''actions'' ''actions''"

definition processes :: "env \<Rightarrow> anaplan_model \<Rightarrow> world \<Rightarrow> (py_error + json) \<times> world" where
  "processes e self = get_collection e self ''processes'' ''processes''"

definition files :: "env \<Rightarrow> anaplan_model \<Rightarrow> world \<Rightarrow> (py_error + json) \<times> world" where
  "files e self = get_collection e self ''files'' ''files''"

definition line_items :: "env \<Rightarrow> anaplan_model \<Rightarrow> world \<Rightarrow> (py_error + json) \<times> world" where
  "line_items e self = get_collection e self ''lineItems'' ''items''"

definition views :: "env \<Rightarrow> anaplan_model \<Rightarrow> world \<Rightarrow> (py_error + json) \<times> world" where
  "views e self = get_collection e self ''views'' ''views''"

section \<open>dictionary.py: routing of action ids\<close>

text \<open>
  \<^verbatim>\<open>AnaplanModel.parse_action_id\<close>: the slice \<^verbatim>\<open>action_id[:3]\<close> is \<open>take 3\<close>; the
  four prefixes are tried in the source's order and the last branch returns the message
  string itself.
\<close>

definition invalid_task_message :: string where
  "invalid_task_message = ''Invalid task provided, please provide valid task''"

definition parse_action_id :: "string \<Rightarrow> string" where
  "parse_action_id action_id =
     (if take 3 action_id = ''112'' then ''imports'' @ ''/'' @ action_id
      else if take 3 action_id = ''116'' then ''exports'' @ ''/'' @ action_id
      else if take 3 action_id = ''117'' then ''actions'' @ ''/'' @ action_id
      else if take 3 action_id = ''118'' then ''processes'' @ ''/'' @ action_id
      else invalid_task_message)"

section \<open>dictionary.py: running and monitoring actions\<close>

text \<open>
  The value a format field \<^verbatim>\<open>{v}\<close> of an f-string inserts: a string as it is, any
  other decoded value as \<^verbatim>\<open>str\<close> prints it.
\<close>

definition format_value :: "env \<Rightarrow> json \<Rightarrow> string" where
  "format_value e v = (case v of JStr s \<Rightarrow> s | _ \<Rightarrow> py_str e v)"

definition run :: "env \<Rightarrow> anaplan_model \<Rightarrow> string \<Rightarrow> world \<Rightarrow> (py_error + json) \<times> world" where
  "run e self action_id w =
     bind (send e \<lparr>rq_method = POST,
                   rq_url = url self @ parse_action_id action_id @ ''/tasks'',
                   rq_headers = task_header self,
                   rq_body = JsonBody (task_body self)\<rparr> w) (\<lambda>r w.
       (rs_json r, w))"

definition monitor :: "env \<Rightarrow> anaplan_model \<Rightarrow> string \<Rightarrow> world \<Rightarrow> (py_error + json) \<times> world" where
  "monitor e self action_id w =
     (let tasks_url = (url self @ parse_action_id action_id) @ ''/tasks'' in
     bind (send e \<lparr>rq_method = GET, rq_url = tasks_url, rq_headers = task_header self,
                   rq_body = NoBody\<rparr> w) (\<lambda>r w.
     bind (rs_json r, w) (\<lambda>req w.
     bind (py_getitem req (KStr ''tasks''), w) (\<lambda>tasks w.
     bind (py_getitem tasks (KInt (- 1)), w) (\<lambda>newest w.
     bind (py_getitem newest (KStr ''taskId''), w) (\<lambda>latest_task w.
     bind (send e \<lparr>rq_method = GET,
                   rq_url = tasks_url @ ''/'' @ format_value e latest_task,
                   rq_headers = task_header self,
                   rq_body = NoBody\<rparr> w) (\<lambda>r w.
     bind (rs_json r, w) (\<lambda>req w.
       (py_getitem req (KStr ''task''), w)))))))))"

definition status :: "env \<Rightarrow> anaplan_model \<Rightarrow> string \<Rightarrow> world \<Rightarrow> (py_error + json) \<times> world" where
  "status e self action_id w =
     bind (monitor e self action_id w) (\<lambda>task w.
       (py_getitem task (KStr ''taskState''), w))"

definition read_view :: "env \<Rightarrow> anaplan_model \<Rightarrow> string \<Rightarrow> world \<Rightarrow> (py_error + json) \<times> world" where
  "read_view e self view_id w =
     bind (send e \<lparr>rq_method = GET,
                   rq_url = url self @ ''views/'' @ view_id @ ''/data?format=v1'',
                   rq_headers = json_header self,
                   rq_body = NoBody\<rparr> w) (\<lambda>r w.
       (rs_json r, w))"

fun cell_entries :: "json list \<Rightarrow> py_error + json list" where
  "cell_entries [] = Inr []"
| "cell_entries (item # items) =
     (case py_getitem item (KInt 0) of Inl err \<Rightarrow> Inl err | Inr line_item \<Rightarrow>
      case py_getitem item (KInt 1) of Inl err \<Rightarrow> Inl err | Inr dims \<Rightarrow>
      case py_getitem item (KInt 2) of Inl err \<Rightarrow> Inl err | Inr v \<Rightarrow>
      case cell_entries items of Inl err \<Rightarrow> Inl err | Inr entries \<Rightarrow>
        Inr (JObj [(''lineItemId'', line_item), (''dimensions'', dims), (''value'', v)] # entries))"

definition write_cells :: "env \<Rightarrow> anaplan_model \<Rightarrow> string \<Rightarrow> json list \<Rightarrow> world \<Rightarrow> (py_error + json) \<times> world" where
  "write_cells e self module_id body w =
     bind (cell_entries body, w) (\<lambda>final_body w.
     bind (send e \<lparr>rq_method = POST,
                   rq_url = url self @ ''modules/'' @ module_id @ ''/data'',
                   rq_headers = json_header self,
                   rq_body = JsonBody (JArr final_body)\<rparr> w) (\<lambda>r w.
       (rs_json r, w)))"

section \<open>dictionary.py: uploading a file\<close>

text \<open>
  \<^verbatim>\<open>f.readlines(hint)\<close> on the lines not yet read: the lines returned and the lines left.
  CPython's reader appends a line first and then stops once the characters returned so far
  exceed the hint; a hint of zero or less returns every line.
\<close>

fun readlines_from :: "int \<Rightarrow> int \<Rightarrow> string list \<Rightarrow> string list \<times> string list" where
  "readlines_from hint n [] = ([], [])"
| "readlines_from hint n (line # rest) =
     (if int (length line) > hint - n then ([line], rest)
      else (case readlines_from hint (n + int (length line)) rest of
              (taken, left) \<Rightarrow> (line # taken, left)))"

definition readlines :: "int \<Rightarrow> string list \<Rightarrow> string list \<times> string list" where
  "readlines hint ls = (if hint \<le> 0 then (ls, []) else readlines_from hint 0 ls)"

lemma readlines_from_split:
  "readlines_from hint n ls = (taken, left) \<Longrightarrow> taken @ left = ls"
  by (induction ls arbitrary: n taken left) (auto split: if_splits prod.splits)

lemma readlines_split: "readlines hint ls = (taken, left) \<Longrightarrow> taken @ left = ls"
  by (auto simp: readlines_def split: if_splits dest: readlines_from_split)

lemma readlines_shorter:
  "(taken, left) = readlines hint ls \<Longrightarrow> taken \<noteq> [] \<Longrightarrow> length left < length ls"
  using readlines_split [of hint ls taken left] by (cases taken) auto

text \<open>
  Python's true division of two integers, whose result is a float. The exact quotient
  stands for it: the float is the binary64 value nearest to the quotient, so it lies
  between the same two binary64 values as the quotient does.
\<close>

definition py_truediv :: "int \<Rightarrow> int \<Rightarrow> py_error + rat" where
  "py_truediv a b = (if b = 0 then Inl ZeroDivisionError else Inr (rat_of_int a / rat_of_int b))"

text \<open>
  The \<^verbatim>\<open>while chunked_data\<close> loop of \<^verbatim>\<open>upload\<close>, from the read that precedes each test
  of the condition: \<open>ls\<close> are the lines the file object has not yet returned.
\<close>

function upload_loop :: "env \<Rightarrow> anaplan_model \<Rightarrow> string \<Rightarrow> nat \<Rightarrow> string list \<Rightarrow> world \<Rightarrow> (py_error + unit) \<times> world" where
  "upload_loop e self upload_file_url chunk_num ls w =
     (case readlines (chunk_size self) ls of
        (chunked_data, left) \<Rightarrow>
          if chunked_data = [] then (Inr (), w)
          else
            (case send e \<lparr>rq_method = PUT,
                          rq_url = upload_file_url @ ''/chunks/'' @ str_nat chunk_num,
                          rq_headers = file_header self,
                          rq_body = DataBody (concat chunked_data)\<rparr> w of
               (Inl err, w') \<Rightarrow> (Inl err, w')
             | (Inr _, w') \<Rightarrow> upload_loop e self upload_file_url (Suc chunk_num) left w'))"
  by pat_completeness auto
termination
  by (relation "measure (\<lambda>(e, self, u, n, ls, w). length ls)")
     (auto simp: readlines_shorter)

declare upload_loop.simps [simp del]

definition upload_rejected_message :: string where
  "upload_rejected_message = ''Unable to upload, please check fileID and metadata''"

definition upload :: "env \<Rightarrow> anaplan_model \<Rightarrow> string \<Rightarrow> string \<Rightarrow> world \<Rightarrow> (py_error + json) \<times> world" where
  "upload e self file_id file w =
     (case file_system e file of
        None \<Rightarrow> (Inl FileNotFoundError, w)
      | Some f \<Rightarrow>
     (let file_size = st_size f;
          upload_file_url = url self @ ''files/'' @ file_id;
          body_begin = JObj [(''id'', JStr file_id), (''chunkCount'', JInt (- 1))]
      in
     bind (py_truediv file_size (chunk_size self), w) (\<lambda>quotient w.
       let body_complete = JObj [(''id'', JStr file_id), (''chunkCount'', JFloat quotient)] in
     bind (send e \<lparr>rq_method = POST, rq_url = upload_file_url,
                   rq_headers = task_header self,
                   rq_body = JsonBody body_begin\<rparr> w) (\<lambda>begin_upload_request w.
       if rs_ok begin_upload_request then
         bind (upload_loop e self upload_file_url 0 (file_lines f) w) (\<lambda>_ w.
         bind (send e \<lparr>rq_method = POST, rq_url = upload_file_url @ ''/complete'',
                       rq_headers = task_header self,
                       rq_body = JsonBody body_complete\<rparr> w) (\<lambda>r w.
           (rs_json r, w)))
       else (Inr (JStr upload_rejected_message), w)))))"

section \<open>Concrete scenarios\<close>

text \<open>
  A server that accepts everything. It issues the bearer value \<open>T\<close> followed by the number
  of requests it has seen, so two exchanges give two different tokens; it validates every
  token, rotates the refresh secret the same way, lists two tasks for any action and
  reports a task as complete.
\<close>

definition ok_response :: "json \<Rightarrow> py_error + response" where
  "ok_response j = Inr \<lparr>rs_ok = True, rs_json = Inr j\<rparr>"

definition demo_srv :: "request list \<Rightarrow> request \<Rightarrow> py_error + response" where
  "demo_srv history rq =
     (if rq_url rq = ''https://auth.anaplan.com/token/authenticate'' then
        ok_response (JObj [(''status'', JStr ''SUCCESS''),
          (''tokenInfo'', JObj [(''tokenValue'', JStr (''T'' @ str_nat (length history)))])])
      else if rq_url rq = ''https://auth.anaplan.com/token/validate'' then
        ok_response (JObj [(''statusMessage'', JStr ''Token validated'')])
      else if rq_url rq = ''https://us1a.app.anaplan.com/oauth/token'' then
        ok_response (JObj [(''access_token'', JStr (''A'' @ str_nat (length history))),
                           (''refresh_token'', JStr (''R'' @ str_nat (length history)))])
      else if rq_method rq = GET \<and> drop (length (rq_url rq) - 6) (rq_url rq) = ''/tasks'' then
        ok_response (JObj [(''tasks'', JArr [JObj [(''taskId'', JStr ''0A'')],
                                            JObj [(''taskId'', JStr ''0B'')]])])
      else if rq_method rq = GET then
        ok_response (JObj [(''task'', JObj [(''taskState'', JStr ''COMPLETE'')])])
      else ok_response (JObj []))"

text \<open>
  A server whose validation endpoint does not confirm the token it issued: the exchange
  answers with a token value, the validation answers with another status message, and
  every other call is answered with a status that is not ok.
\<close>

definition strict_srv :: "request list \<Rightarrow> request \<Rightarrow> py_error + response" where
  "strict_srv history rq =
     (if rq_url rq = ''https://auth.anaplan.com/token/authenticate'' then
        ok_response (JObj [(''status'', JStr ''SUCCESS''),
                           (''tokenInfo'', JObj [(''tokenValue'', JStr ''T'')])])
      else if rq_url rq = ''https://auth.anaplan.com/token/validate'' then
        Inr \<lparr>rs_ok = False, rs_json = Inr (JObj [(''statusMessage'', JStr ''Token invalid'')])\<rparr>
      else Inr \<lparr>rs_ok = False, rs_json = Inr (JObj [])\<rparr>)"

text \<open>
  A file of 120 MiB: three lines of 40 MiB, each 41943039 letters and a line feed.
\<close>

definition demo_line :: string where
  "demo_line = replicate 41943039 (CHR ''a'') @ [CHR 0x0A]"

definition demo_files :: "string \<Rightarrow> text_file option" where
  "demo_files path =
     (if path = ''download.csv''
      then Some \<lparr>st_size = 120 * 1048576, file_lines = [demo_line, demo_line, demo_line]\<rparr>
      else None)"

definition demo_env :: "(request list \<Rightarrow> request \<Rightarrow> py_error + response) \<Rightarrow> env" where
  "demo_env s =
     \<lparr>srv = s,
      utcnow = (\<lambda>history. 1700000000000000 + 1000000 * int (length history)),
      file_system = demo_files,
      b64encode = (\<lambda>s. ''b64:'' @ s),
      json_dumps = (\<lambda>j. ''{}''),
      py_str = (\<lambda>j. ''?''),
      urandom = (\<lambda>history. ''nonce''),
      sign_sha512 = (\<lambda>k d. Inr ''signature'')\<rparr>"

definition demo_world :: world where
  "demo_world =
     \<lparr>trace = [],
      environ = Map.empty,
      dotenv = (\<lambda>path. if path = ''creds.env''
                          then [''client_id'' \<mapsto> ''cid'', ''refresh_token'' \<mapsto> ''R-old'']
                          else Map.empty)\<rparr>"

definition basic_login :: anaplan_auth where
  "basic_login =
     \<lparr>via = ''basic'', creds = Some ''user:pw'', b64creds = Some ''b64:user:pw'',
      public_cert = None, private_key = None, file_env = None,
      a_token = None, a_expires_at = None\<rparr>"

definition oauth_login :: anaplan_auth where
  "oauth_login =
     \<lparr>via = ''oauth_refresh'', creds = None, b64creds = None,
      public_cert = None, private_key = None, file_env = Some ''creds.env'',
      a_token = None, a_expires_at = None\<rparr>"

text \<open>
  The connection object the constructor builds for workspace \<open>w\<close> and model \<open>m\<close> from
  \<open>basic_login\<close> against \<open>demo_srv\<close> (lemma \<open>model_init_demo\<close> below).
\<close>

definition demo_model :: anaplan_model where
  "demo_model =
     \<lparr>login = basic_login\<lparr>a_token := Some ''AnaplanAuthToken T0'',
                              a_expires_at := Some 1700002102000000\<rparr>,
      token_value = Some ''AnaplanAuthToken T0'',
      expires_at = Some 1700002102000000,
      ws_id = ''w'',
      model_id = ''m'',
      header = [(''Authorization'', Some ''AnaplanAuthToken T0'')],
      url = ''https://api.anaplan.com/2/0/workspaces/w/models/m/'',
      task_header = [(''Authorization'', Some ''AnaplanAuthToken T0''),
                     (''Content-Type'', Some ''application/json'')],
      json_header = [(''Authorization'', Some ''AnaplanAuthToken T0''),
                     (''Accept'', Some ''application/json'')],
      task_body = JObj [(''localeName'', JStr ''en_US'')],
      file_header = [(''Authorization'', Some ''AnaplanAuthToken T0''),
                     (''Content-Type'', Some ''application/octet-stream'')],
      chunk_size = 52428800\<rparr>"

definition demo_session :: world where
  "demo_session =
     demo_world\<lparr>trace :=
       [\<lparr>rq_method = POST, rq_url = ''https://auth.anaplan.com/token/authenticate'',
         rq_headers = [(''Authorization'', Some ''Basic b64:user:pw'')], rq_body = NoBody\<rparr>,
        \<lparr>rq_method = GET, rq_url = ''https://auth.anaplan.com/token/validate'',
         rq_headers = [(''Authorization'', Some ''AnaplanAuthToken T0'')], rq_body = NoBody\<rparr>]\<rparr>"

section \<open>The requests of the token exchanges\<close>

text \<open>
  The four requests the authentication code builds, named for the statements about them:
  the exchange of a basic credential, the exchange of a certificate (from the certificate
  text, the random bytes and their signature), the exchange of the refresh secret (from
  the process environment after the dot-env file was loaded), and the validation of a
  bearer string.
\<close>

definition basic_request :: "string \<Rightarrow> request" where
  "basic_request b =
     \<lparr>rq_method = POST, rq_url = ''https://auth.anaplan.com/token/authenticate'',
      rq_headers = [(''Authorization'', Some (''Basic '' @ b))], rq_body = NoBody\<rparr>"

definition cert_request :: "env \<Rightarrow> string \<Rightarrow> string \<Rightarrow> string \<Rightarrow> request" where
  "cert_request e st_cert random_str signed_str =
     \<lparr>rq_method = POST, rq_url = ''https://auth.anaplan.com/token/authenticate'',
      rq_headers = [(''AUTHORIZATION'', Some (''CACertificate '' @
         str_replace ''-----END CERTIFICATE-----'' []
           (str_replace ''-----BEGIN CERTIFICATE-----'' []
             (str_replace [CHR 0x0A] [] st_cert))))],
      rq_body = DataBody (json_dumps e
         (JObj [(''encodedData'', JStr (b64encode e random_str)),
                (''encodedSignedData'', JStr (b64encode e signed_str))]))\<rparr>"

definition oauth_request :: "(string \<rightharpoonup> string) \<Rightarrow> request" where
  "oauth_request vars =
     \<lparr>rq_method = POST, rq_url = ''https://us1a.app.anaplan.com/oauth/token'',
      rq_headers = [(''Content-Type'', Some ''application/json'')],
      rq_body = JsonBody (JObj [(''refresh_token'', json_of_env (vars ''refresh_token'')),
                                (''client_id'', json_of_env (vars ''client_id'')),
                                (''grant_type'', JStr ''refresh_token'')])\<rparr>"

definition validate_request :: "string \<Rightarrow> request" where
  "validate_request bearer =
     \<lparr>rq_method = GET, rq_url = ''https://auth.anaplan.com/token/validate'',
      rq_headers = [(''Authorization'', Some bearer)], rq_body = NoBody\<rparr>"

text \<open>
  A certificate login with its two PEM files, for the scenarios: the files of
  \<open>demo_env\<close> and these two.
\<close>

definition cert_files :: "string \<Rightarrow> text_file option" where
  "cert_files path =
     (if path = ''cert.pem'' then
        Some \<lparr>st_size = 62,
              file_lines = [''-----BEGIN CERTIFICATE-----'' @ [CHR 0x0A],
                            ''MIIB'' @ [CHR 0x0A],
                            ''-----END CERTIFICATE-----'' @ [CHR 0x0A]]\<rparr>
      else if path = ''key.pem'' then
        Some \<lparr>st_size = 4, file_lines = [''KEY'' @ [CHR 0x0A]]\<rparr>
      else demo_files path)"

definition cert_env :: env where
  "cert_env = (demo_env demo_srv)\<lparr>file_system := cert_files\<rparr>"

definition cert_login :: anaplan_auth where
  "cert_login =
     \<lparr>via = ''certificate'', creds = None, b64creds = None,
      public_cert = Some ''cert.pem'', private_key = Some ''key.pem'', file_env = None,
      a_token = None, a_expires_at = None\<rparr>"

section \<open>Basic facts\<close>

lemma bind_Inl [simp]: "bind (Inl err, s) f = (Inl err, s)"
  by (simp add: bind_def)

lemma bind_Inr [simp]: "bind (Inr x, s) f = f x s"
  by (simp add: bind_def)

lemma py_index_last: "xs \<noteq> [] \<Longrightarrow> py_index xs (- 1) = Inr (last xs)"
  by (cases xs rule: rev_cases) (auto simp: py_index_def nth_append)

lemma str_nat_digit: "n < 10 \<Longrightarrow> str_nat n = [digit_char n]"
  by (simp add: str_nat.simps)

text \<open>The upload loop only ever adds requests to the history.\<close>

lemma upload_loop_extends:
  "\<exists>later. trace (snd (upload_loop e self u n ls w)) = trace w @ later"
proof (induction e self u n ls w rule: upload_loop.induct)
  case (1 e self u n ls w)
  show ?case
  proof (cases "readlines (chunk_size self) ls")
    case (Pair chunked_data left)
    show ?thesis
    proof (cases "chunked_data = []")
      case True
      with Pair show ?thesis by (simp add: upload_loop.simps [of e self u n ls w])
    next
      case False
      let ?rq = "\<lparr>rq_method = PUT, rq_url = u @ ''/chunks/'' @ str_nat n,
                  rq_headers = file_header self, rq_body = DataBody (concat chunked_data)\<rparr>"
      show ?thesis
      proof (cases "srv e (trace w) ?rq")
        case (Inl err)
        with Pair False show ?thesis
          by (simp add: upload_loop.simps [of e self u n ls w] send_def)
      next
        case (Inr r)
        have sent: "(Inr r, w\<lparr>trace := trace w @ [?rq]\<rparr>) = send e ?rq w"
          using Inr by (simp add: send_def)
        from "1.IH" [OF Pair [symmetric] False sent refl]
        obtain later where
          "trace (snd (upload_loop e self u (Suc n) left (w\<lparr>trace := trace w @ [?rq]\<rparr>)))
             = (trace w @ [?rq]) @ later"
          by auto
        with Pair False Inr show ?thesis
          by (simp add: upload_loop.simps [of e self u n ls w] send_def)
      qed
    qed
  qed
qed

section \<open>The concrete scenarios, evaluated\<close>

lemma get_token_demo:
  "get_token (demo_env demo_srv) basic_login demo_world =
     (Inr (Some ''AnaplanAuthToken T0''),
      basic_login\<lparr>a_token := Some ''AnaplanAuthToken T0'', a_expires_at := Some 1700002102000000\<rparr>,
      demo_session)"
  by (simp add: get_token_def basic_login_def demo_env_def demo_world_def demo_session_def
      demo_srv_def ok_response_def attr_def send_def validate_def py_concat_def
      timedelta_minutes_def str_nat_digit digit_char_def)

lemma model_init_demo:
  "model_init (demo_env demo_srv) basic_login ''w'' ''m'' demo_world = (Inr demo_model, demo_session)"
  by (simp add: model_init_def get_token_demo demo_model_def)

lemma length_demo_line: "length demo_line = 41943040"
  by (simp add: demo_line_def)

lemma demo_line_not_Nil: "demo_line \<noteq> []"
  by (simp add: demo_line_def)

lemma readlines_demo:
  "readlines 52428800 [demo_line, demo_line, demo_line] = ([demo_line, demo_line], [demo_line])"
  "readlines 52428800 [demo_line] = ([demo_line], [])"
  "readlines 52428800 [] = ([], [])"
  by (simp_all add: readlines_def length_demo_line)

lemma model_get_token_demo:
  "model_get_token (demo_env demo_srv) demo_model demo_session =
     (Inr (),
      demo_model\<lparr>login := basic_login\<lparr>a_token := Some ''AnaplanAuthToken T2'',
                                         a_expires_at := Some 1700002104000000\<rparr>,
                  token_value := Some ''AnaplanAuthToken T2'',
                  expires_at := Some 1700002104000000\<rparr>,
      demo_session\<lparr>trace := trace demo_session @
        [\<lparr>rq_method = POST, rq_url = ''https://auth.anaplan.com/token/authenticate'',
          rq_headers = [(''Authorization'', Some ''Basic b64:user:pw'')], rq_body = NoBody\<rparr>,
         \<lparr>rq_method = GET, rq_url = ''https://auth.anaplan.com/token/validate'',
          rq_headers = [(''Authorization'', Some ''AnaplanAuthToken T2'')], rq_body = NoBody\<rparr>]\<rparr>)"
  by (simp add: model_get_token_def get_token_def basic_login_def demo_env_def demo_world_def
      demo_session_def demo_model_def demo_srv_def ok_response_def attr_def send_def
      validate_def py_concat_def timedelta_minutes_def str_nat_digit digit_char_def)

text \<open>
  The whole run of \<open>upload\<close> on the 120 MiB file of three 40 MiB lines, with the chunk
  size 52428800 of the constructor and a server that accepts every call: the begin
  notification, two chunk uploads, the completion call.
\<close>

lemma upload_loop_demo:
  "upload_loop (demo_env demo_srv) demo_model u 0 [demo_line, demo_line, demo_line] w =
     (Inr (), w\<lparr>trace := trace w @
        [\<lparr>rq_method = PUT, rq_url = u @ ''/chunks/0'', rq_headers = file_header demo_model,
          rq_body = DataBody (demo_line @ demo_line)\<rparr>,
         \<lparr>rq_method = PUT, rq_url = u @ ''/chunks/1'', rq_headers = file_header demo_model,
          rq_body = DataBody demo_line\<rparr>]\<rparr>)"
  by (simp add: upload_loop.simps [of _ _ _ _ "[demo_line, demo_line, demo_line]"]
        upload_loop.simps [of _ _ _ _ "[demo_line]"] upload_loop.simps [of _ _ _ _ "[]"]
        readlines_demo demo_line_not_Nil send_def demo_model_def demo_env_def demo_srv_def
        ok_response_def str_nat_digit digit_char_def)

lemma upload_demo:
  "upload (demo_env demo_srv) demo_model ''113000000000'' ''download.csv'' demo_session =
     (Inr (JObj []),
      demo_session\<lparr>trace := trace demo_session @
        [\<lparr>rq_method = POST,
          rq_url = ''https://api.anaplan.com/2/0/workspaces/w/models/m/files/113000000000'',
          rq_headers = task_header demo_model,
          rq_body = JsonBody (JObj [(''id'', JStr ''113000000000''), (''chunkCount'', JInt (- 1))])\<rparr>,
         \<lparr>rq_method = PUT,
          rq_url = ''https://api.anaplan.com/2/0/workspaces/w/models/m/files/113000000000/chunks/0'',
          rq_headers = file_header demo_model,
          rq_body = DataBody (demo_line @ demo_line)\<rparr>,
         \<lparr>rq_method = PUT,
          rq_url = ''https://api.anaplan.com/2/0/workspaces/w/models/m/files/113000000000/chunks/1'',
          rq_headers = file_header demo_model,
          rq_body = DataBody demo_line\<rparr>,
         \<lparr>rq_method = POST,
          rq_url = ''https://api.anaplan.com/2/0/workspaces/w/models/m/files/113000000000/complete'',
          rq_headers = task_header demo_model,
          rq_body = JsonBody (JObj [(''id'', JStr ''113000000000''),
                                    (''chunkCount'', JFloat (12 / 5))])\<rparr>]\<rparr>)"
proof -
  have f: "file_system (demo_env demo_srv) ''download.csv''
     = Some \<lparr>st_size = 120 * 1048576, file_lines = [demo_line, demo_line, demo_line]\<rparr>"
    by (simp add: demo_env_def demo_files_def)
  have q: "py_truediv 125829120 (chunk_size demo_model) = Inr (12 / 5)"
    by (simp add: py_truediv_def demo_model_def)
  have u: "url demo_model = ''https://api.anaplan.com/2/0/workspaces/w/models/m/''"
    by (simp add: demo_model_def)
  have s: "\<And>h rq. rq_method rq = POST \<Longrightarrow>
      rq_url rq \<noteq> ''https://auth.anaplan.com/token/authenticate'' \<Longrightarrow>
      rq_url rq \<noteq> ''https://auth.anaplan.com/token/validate'' \<Longrightarrow>
      rq_url rq \<noteq> ''https://us1a.app.anaplan.com/oauth/token'' \<Longrightarrow>
      srv (demo_env demo_srv) h rq = Inr \<lparr>rs_ok = True, rs_json = Inr (JObj [])\<rparr>"
    by (simp add: demo_env_def demo_srv_def ok_response_def)
  show ?thesis
    by (simp add: upload_def f q u s Let_def send_def upload_loop_demo)
qed

section \<open>Routing of action ids: properties\<close>

text \<open>
  C8. An id whose first three characters are 118 is routed to the processes collection
  with the path processes/id, \<^verbatim>\<open>118000000000\<close> in particular; an id whose first three
  characters are none of 112, 116, 117, 118 makes \<open>parse_action_id\<close> return the
  invalid-task message as an ordinary value. The function is total on strings: no branch
  raises.
\<close>

theorem parse_action_id_classifies:
  "(take 3 action_id = ''118'' \<longrightarrow>
      parse_action_id action_id = ''processes/'' @ action_id)
   \<and> parse_action_id ''118000000000'' = ''processes/118000000000''
   \<and> (take 3 action_id \<notin> {''112'', ''116'', ''117'', ''118''} \<longrightarrow>
      parse_action_id action_id = invalid_task_message)"
  by (simp add: parse_action_id_def)

theorem parse_action_id_classifies_witness:
  "take 3 ''118000000000'' = ''118''
   \<and> parse_action_id ''118000000000'' = ''processes/118000000000''
   \<and> take 3 ''999000000000'' \<notin> {''112'', ''116'', ''117'', ''118''}
   \<and> parse_action_id ''999000000000'' = invalid_task_message"
  using parse_action_id_classifies [of "''118000000000''"]
    parse_action_id_classifies [of "''999000000000''"]
  by simp

text \<open>
  C10. For an action id whose first three characters are none of 112, 116, 117, 118,
  \<open>run\<close> reports no classification error: it sends exactly one POST, to the model URL
  followed by the invalid-task message and \<^verbatim>\<open>/tasks\<close>, and returns what decoding the
  answer gives. The only errors left are those of the transport and of the decoding.
\<close>

theorem run_unclassified_posts_message_url:
  assumes "take 3 action_id \<notin> {''112'', ''116'', ''117'', ''118''}"
  shows "run e self action_id w =
     (let rq = \<lparr>rq_method = POST, rq_url = url self @ invalid_task_message @ ''/tasks'',
                rq_headers = task_header self, rq_body = JsonBody (task_body self)\<rparr>
      in ((case srv e (trace w) rq of Inl err \<Rightarrow> Inl err | Inr r \<Rightarrow> rs_json r),
          w\<lparr>trace := trace w @ [rq]\<rparr>))"
  using assms
  by (simp add: run_def send_def parse_action_id_def Let_def bind_def split: sum.splits)

theorem run_unclassified_posts_message_url_witness:
  "take 3 ''999000000000'' \<notin> {''112'', ''116'', ''117'', ''118''}
   \<and> run (demo_env demo_srv) demo_model ''999000000000'' demo_session =
       (Inr (JObj []),
        demo_session\<lparr>trace := trace demo_session @
          [\<lparr>rq_method = POST,
            rq_url = ''https://api.anaplan.com/2/0/workspaces/w/models/m/Invalid task provided, please provide valid task/tasks'',
            rq_headers = [(''Authorization'', Some ''AnaplanAuthToken T0''),
                          (''Content-Type'', Some ''application/json'')],
            rq_body = JsonBody (JObj [(''localeName'', JStr ''en_US'')])\<rparr>]\<rparr>)"
proof -
  have h: "take 3 ''999000000000'' \<notin> {''112'', ''116'', ''117'', ''118''}" by simp
  show ?thesis
    using h run_unclassified_posts_message_url [OF h, of "demo_env demo_srv" demo_model demo_session]
    by (simp add: Let_def demo_env_def demo_srv_def demo_model_def ok_response_def
        invalid_task_message_def)
qed

section \<open>Monitoring: properties\<close>

text \<open>
  C7. When the server lists the tasks of an action as a non-empty list \<open>ts\<close> whose last
  element carries the task id \<open>tid\<close>, \<open>monitor\<close> sends two requests: the listing, and
  the detail request for \<open>tid\<close>, the id of the last element of the list; it returns the
  \<^verbatim>\<open>task\<close> field of the second answer. For every action id and every server state,
  \<open>status\<close> is the \<^verbatim>\<open>taskState\<close> field of what \<open>monitor\<close> returns there, and raises
  what \<open>monitor\<close> raises.
\<close>

theorem monitor_selects_last_task:
  "(srv e (trace w)
        \<lparr>rq_method = GET, rq_url = url self @ parse_action_id action_id @ ''/tasks'',
         rq_headers = task_header self, rq_body = NoBody\<rparr> = Inr r
      \<and> rs_json r = Inr listing
      \<and> py_getitem listing (KStr ''tasks'') = Inr (JArr ts)
      \<and> ts \<noteq> []
      \<and> py_getitem (last ts) (KStr ''taskId'') = Inr tid
    \<longrightarrow>
      (let tasks_rq = \<lparr>rq_method = GET,
             rq_url = url self @ parse_action_id action_id @ ''/tasks'',
             rq_headers = task_header self, rq_body = NoBody\<rparr>;
           task_rq = \<lparr>rq_method = GET,
             rq_url = url self @ parse_action_id action_id @ ''/tasks'' @ ''/''
                        @ format_value e tid,
             rq_headers = task_header self, rq_body = NoBody\<rparr>
       in monitor e self action_id w =
           ((case srv e (trace w @ [tasks_rq]) task_rq of
               Inl err \<Rightarrow> Inl err
             | Inr r2 \<Rightarrow> (case rs_json r2 of
                            Inl err \<Rightarrow> Inl err
                          | Inr detail \<Rightarrow> py_getitem detail (KStr ''task''))),
            w\<lparr>trace := trace w @ [tasks_rq, task_rq]\<rparr>)))
   \<and> status e self action_id w =
       (case monitor e self action_id w of
          (Inl err, w') \<Rightarrow> (Inl err, w')
        | (Inr task, w') \<Rightarrow> (py_getitem task (KStr ''taskState''), w'))"
proof
  show "srv e (trace w)
        \<lparr>rq_method = GET, rq_url = url self @ parse_action_id action_id @ ''/tasks'',
         rq_headers = task_header self, rq_body = NoBody\<rparr> = Inr r
      \<and> rs_json r = Inr listing
      \<and> py_getitem listing (KStr ''tasks'') = Inr (JArr ts)
      \<and> ts \<noteq> []
      \<and> py_getitem (last ts) (KStr ''taskId'') = Inr tid
    \<longrightarrow>
      (let tasks_rq = \<lparr>rq_method = GET,
             rq_url = url self @ parse_action_id action_id @ ''/tasks'',
             rq_headers = task_header self, rq_body = NoBody\<rparr>;
           task_rq = \<lparr>rq_method = GET,
             rq_url = url self @ parse_action_id action_id @ ''/tasks'' @ ''/''
                        @ format_value e tid,
             rq_headers = task_header self, rq_body = NoBody\<rparr>
       in monitor e self action_id w =
           ((case srv e (trace w @ [tasks_rq]) task_rq of
               Inl err \<Rightarrow> Inl err
             | Inr r2 \<Rightarrow> (case rs_json r2 of
                            Inl err \<Rightarrow> Inl err
                          | Inr detail \<Rightarrow> py_getitem detail (KStr ''task''))),
            w\<lparr>trace := trace w @ [tasks_rq, task_rq]\<rparr>))"
    by (simp add: monitor_def send_def Let_def py_index_last bind_def split: sum.splits)
  show "status e self action_id w =
       (case monitor e self action_id w of
          (Inl err, w') \<Rightarrow> (Inl err, w')
        | (Inr task, w') \<Rightarrow> (py_getitem task (KStr ''taskState''), w'))"
    by (simp add: status_def bind_def)
qed

theorem monitor_selects_last_task_witness:
  "monitor (demo_env demo_srv) demo_model ''118000000000'' demo_session =
       (Inr (JObj [(''taskState'', JStr ''COMPLETE'')]),
        demo_session\<lparr>trace := trace demo_session @
          [\<lparr>rq_method = GET,
            rq_url = ''https://api.anaplan.com/2/0/workspaces/w/models/m/processes/118000000000/tasks'',
            rq_headers = task_header demo_model, rq_body = NoBody\<rparr>,
           \<lparr>rq_method = GET,
            rq_url = ''https://api.anaplan.com/2/0/workspaces/w/models/m/processes/118000000000/tasks/0B'',
            rq_headers = task_header demo_model, rq_body = NoBody\<rparr>]\<rparr>)
   \<and> status (demo_env demo_srv) demo_model ''118000000000'' demo_session =
       (Inr (JStr ''COMPLETE''),
        demo_session\<lparr>trace := trace demo_session @
          [\<lparr>rq_method = GET,
            rq_url = ''https://api.anaplan.com/2/0/workspaces/w/models/m/processes/118000000000/tasks'',
            rq_headers = task_header demo_model, rq_body = NoBody\<rparr>,
           \<lparr>rq_method = GET,
            rq_url = ''https://api.anaplan.com/2/0/workspaces/w/models/m/processes/118000000000/tasks/0B'',
            rq_headers = task_header demo_model, rq_body = NoBody\<rparr>]\<rparr>)"
proof -
  let ?listing = "JObj [(''tasks'', JArr [JObj [(''taskId'', JStr ''0A'')],
                                         JObj [(''taskId'', JStr ''0B'')]])]"
  let ?ts = "[JObj [(''taskId'', JStr ''0A'')], JObj [(''taskId'', JStr ''0B'')]]"
  have h1: "srv (demo_env demo_srv) (trace demo_session)
             \<lparr>rq_method = GET,
              rq_url = url demo_model @ parse_action_id ''118000000000'' @ ''/tasks'',
              rq_headers = task_header demo_model, rq_body = NoBody\<rparr>
            = Inr \<lparr>rs_ok = True, rs_json = Inr ?listing\<rparr>"
    by (simp add: demo_env_def demo_srv_def demo_model_def parse_action_id_def ok_response_def)
  have h2: "rs_json \<lparr>rs_ok = True, rs_json = Inr ?listing\<rparr> = Inr ?listing" by simp
  have h3: "py_getitem ?listing (KStr ''tasks'') = Inr (JArr ?ts)" by simp
  have h4: "?ts \<noteq> []" by simp
  have h5: "py_getitem (last ?ts) (KStr ''taskId'') = Inr (JStr ''0B'')" by simp
  show ?thesis
    using h1 h2 h3 h4 h5
      monitor_selects_last_task [of "demo_env demo_srv" demo_session demo_model
        "''118000000000''" "\<lparr>rs_ok = True, rs_json = Inr ?listing\<rparr>" ?listing ?ts "JStr ''0B''"]
    by (simp add: Let_def demo_env_def demo_srv_def demo_model_def parse_action_id_def
        ok_response_def format_value_def)
qed

section \<open>Upload: properties\<close>

text \<open>
  C5. For a file that exists and a chunk size other than zero (the constructor sets
  52428800), the first request \<open>upload\<close> sends is the begin notification, a POST to
  \<^verbatim>\<open>files/id\<close> whose body carries \<^verbatim>\<open>chunkCount = -1\<close>. If the server answers it with a
  status that is not ok, that request is the only one sent (no chunk upload and no
  completion call follow) and the caller receives the upload-rejected message.
\<close>

theorem upload_begin_sentinel_and_rejection:
  assumes "file_system e file = Some f" and "chunk_size self \<noteq> 0"
  shows "(let begin_rq = \<lparr>rq_method = POST, rq_url = url self @ ''files/'' @ file_id,
                rq_headers = task_header self,
                rq_body = JsonBody (JObj [(''id'', JStr file_id), (''chunkCount'', JInt (- 1))])\<rparr>
          in (\<exists>later. trace (snd (upload e self file_id file w)) = trace w @ begin_rq # later)
             \<and> (\<forall>r. srv e (trace w) begin_rq = Inr r \<and> \<not> rs_ok r \<longrightarrow>
                   upload e self file_id file w =
                     (Inr (JStr upload_rejected_message), w\<lparr>trace := trace w @ [begin_rq]\<rparr>)))"
proof -
  let ?u = "url self @ ''files/'' @ file_id"
  let ?rq = "\<lparr>rq_method = POST, rq_url = ?u, rq_headers = task_header self,
              rq_body = JsonBody (JObj [(''id'', JStr file_id), (''chunkCount'', JInt (- 1))])\<rparr>"
  let ?w1 = "w\<lparr>trace := trace w @ [?rq]\<rparr>"
  obtain puts where puts:
    "trace (snd (upload_loop e self ?u 0 (file_lines f) ?w1)) = trace ?w1 @ puts"
    using upload_loop_extends by blast
  have first: "\<exists>later. trace (snd (upload e self file_id file w)) = trace w @ ?rq # later"
  proof (cases "srv e (trace w) ?rq")
    case (Inl err)
    with assms show ?thesis by (simp add: upload_def py_truediv_def send_def Let_def)
  next
    case answered: (Inr r)
    show ?thesis
    proof (cases "rs_ok r")
      case False
      with answered assms show ?thesis by (simp add: upload_def py_truediv_def send_def Let_def)
    next
      case True
      obtain res w2 where loop: "upload_loop e self ?u 0 (file_lines f) ?w1 = (res, w2)"
        by (cases "upload_loop e self ?u 0 (file_lines f) ?w1")
      with puts have w2: "trace w2 = trace w @ ?rq # puts" by simp
      show ?thesis
      proof (cases res)
        case (Inl err)
        with answered True assms loop w2 show ?thesis
          by (simp add: upload_def py_truediv_def send_def Let_def)
      next
        case (Inr u)
        with answered True assms loop w2 show ?thesis
          by (simp add: upload_def py_truediv_def send_def Let_def bind_def
              split: sum.splits prod.splits)
      qed
    qed
  qed
  have rejected: "\<forall>r. srv e (trace w) ?rq = Inr r \<and> \<not> rs_ok r \<longrightarrow>
        upload e self file_id file w = (Inr (JStr upload_rejected_message), ?w1)"
    using assms by (simp add: upload_def py_truediv_def send_def Let_def)
  from first rejected show ?thesis by (simp add: Let_def)
qed

theorem upload_begin_sentinel_and_rejection_witness:
  "file_system (demo_env strict_srv) ''download.csv''
     = Some \<lparr>st_size = 120 * 1048576, file_lines = [demo_line, demo_line, demo_line]\<rparr>
   \<and> chunk_size demo_model \<noteq> 0
   \<and> upload (demo_env strict_srv) demo_model ''113000000000'' ''download.csv'' demo_session =
       (Inr (JStr upload_rejected_message),
        demo_session\<lparr>trace := trace demo_session @
          [\<lparr>rq_method = POST,
            rq_url = ''https://api.anaplan.com/2/0/workspaces/w/models/m/files/113000000000'',
            rq_headers = task_header demo_model,
            rq_body = JsonBody (JObj [(''id'', JStr ''113000000000''),
                                      (''chunkCount'', JInt (- 1))])\<rparr>]\<rparr>)"
proof -
  have h1: "file_system (demo_env strict_srv) ''download.csv''
     = Some \<lparr>st_size = 120 * 1048576, file_lines = [demo_line, demo_line, demo_line]\<rparr>"
    by (simp add: demo_env_def demo_files_def)
  have h2: "chunk_size demo_model \<noteq> 0" by (simp add: demo_model_def)
  show ?thesis
    using h1 h2
      upload_begin_sentinel_and_rejection [OF h1 h2, of "''113000000000''" demo_session]
    by (simp add: Let_def demo_env_def strict_srv_def demo_model_def)
qed

text \<open>
  A read that stops before the end of the file has returned more characters than the
  hint: the reader checks the total only after it has appended the line.
\<close>

lemma readlines_from_exceeds:
  "readlines_from hint n ls = (taken, left) \<Longrightarrow> left \<noteq> [] \<Longrightarrow>
     hint < n + int (length (concat taken))"
proof (induction ls arbitrary: n taken left)
  case Nil
  then show ?case by simp
next
  case (Cons line ls)
  show ?case
  proof (cases "int (length line) > hint - n")
    case True
    with Cons.prems show ?thesis by auto
  next
    case False
    with Cons.prems obtain t where
      t: "readlines_from hint (n + int (length line)) ls = (t, left)" "taken = line # t"
      by (auto split: prod.splits)
    from Cons.IH [OF t(1) Cons.prems(2)] t(2) show ?thesis by simp
  qed
qed

lemma readlines_cut_exceeds_hint:
  "0 < hint \<Longrightarrow> readlines hint ls = (taken, left) \<Longrightarrow> left \<noteq> [] \<Longrightarrow>
     hint < int (length (concat taken))"
  using readlines_from_exceeds [of hint 0 ls taken left] by (simp add: readlines_def)

text \<open>
  The requests the loop sends are chunk uploads addressed by consecutive indices, in
  ascending order from the index it starts with.
\<close>

lemma upload_loop_indices:
  "\<exists>k. drop (length (trace w)) (trace (snd (upload_loop e self u n ls w)))
         = map (\<lambda>(i, c). \<lparr>rq_method = PUT, rq_url = u @ ''/chunks/'' @ str_nat i,
                  rq_headers = file_header self, rq_body = DataBody c\<rparr>) k
       \<and> map fst k = [n ..< n + length k]"
proof (induction e self u n ls w rule: upload_loop.induct)
  case (1 e self u n ls w)
  show ?case
  proof (cases "readlines (chunk_size self) ls")
    case (Pair chunked_data left)
    show ?thesis
    proof (cases "chunked_data = []")
      case True
      with Pair show ?thesis by (simp add: upload_loop.simps [of e self u n ls w])
    next
      case False
      let ?rq = "\<lparr>rq_method = PUT, rq_url = u @ ''/chunks/'' @ str_nat n,
                  rq_headers = file_header self, rq_body = DataBody (concat chunked_data)\<rparr>"
      let ?w1 = "w\<lparr>trace := trace w @ [?rq]\<rparr>"
      show ?thesis
      proof (cases "srv e (trace w) ?rq")
        case (Inl err)
        with Pair False
        have "drop (length (trace w)) (trace (snd (upload_loop e self u n ls w)))
          = map (\<lambda>(i, c). \<lparr>rq_method = PUT, rq_url = u @ ''/chunks/'' @ str_nat i,
                  rq_headers = file_header self, rq_body = DataBody c\<rparr>)
              [(n, concat chunked_data)]"
          by (simp add: upload_loop.simps [of e self u n ls w] send_def)
        moreover have "map fst [(n, concat chunked_data)]
            = [n ..< n + length [(n, concat chunked_data)]]"
          by simp
        ultimately show ?thesis by blast
      next
        case (Inr r)
        have sent: "(Inr r, ?w1) = send e ?rq w"
          using Inr by (simp add: send_def)
        from "1.IH" [OF Pair [symmetric] False sent refl]
        obtain k where k:
          "drop (length (trace ?w1)) (trace (snd (upload_loop e self u (Suc n) left ?w1)))
             = map (\<lambda>(i, c). \<lparr>rq_method = PUT, rq_url = u @ ''/chunks/'' @ str_nat i,
                  rq_headers = file_header self, rq_body = DataBody c\<rparr>) k"
          "map fst k = [Suc n ..< Suc n + length k]"
          by auto
        obtain later where later:
          "trace (snd (upload_loop e self u (Suc n) left ?w1)) = trace ?w1 @ later"
          using upload_loop_extends by blast
        with k(1) have "later = map (\<lambda>(i, c). \<lparr>rq_method = PUT,
                  rq_url = u @ ''/chunks/'' @ str_nat i,
                  rq_headers = file_header self, rq_body = DataBody c\<rparr>) k" by simp
        with later Pair False Inr
        have "drop (length (trace w)) (trace (snd (upload_loop e self u n ls w)))
          = map (\<lambda>(i, c). \<lparr>rq_method = PUT, rq_url = u @ ''/chunks/'' @ str_nat i,
                  rq_headers = file_header self, rq_body = DataBody c\<rparr>)
              ((n, concat chunked_data) # k)"
          by (simp add: upload_loop.simps [of e self u n ls w] send_def)
        moreover from k(2) have "map fst ((n, concat chunked_data) # k)
            = [n ..< n + length ((n, concat chunked_data) # k)]"
          by (simp add: upt_conv_Cons del: upt_Suc)
        ultimately show ?thesis by blast
      qed
    qed
  qed
qed

text \<open>
  C1, on that file: the completion call carries \<^verbatim>\<open>chunkCount\<close> = 12/5, the quotient of
  the 125829120 bytes by the 52428800 of the chunk size, and not the 3 that rounding it up
  gives (nor the 2 chunk uploads that were sent). The float Python sends is the binary64
  value nearest to 12/5, between 2.25 and 2.5 like it.
\<close>

theorem completion_call_carries_quotient:
  "file_system (demo_env demo_srv) ''download.csv''
     = Some \<lparr>st_size = 125829120, file_lines = [demo_line, demo_line, demo_line]\<rparr>
   \<and> chunk_size demo_model = 52428800
   \<and> last (trace (snd (upload (demo_env demo_srv) demo_model ''113000000000'' ''download.csv''
                           demo_session))) =
       \<lparr>rq_method = POST,
        rq_url = ''https://api.anaplan.com/2/0/workspaces/w/models/m/files/113000000000/complete'',
        rq_headers = task_header demo_model,
        rq_body = JsonBody (JObj [(''id'', JStr ''113000000000''),
                                  (''chunkCount'', JFloat (12 / 5))])\<rparr>
   \<and> \<lceil>(12 / 5 :: rat)\<rceil> = 3"
proof -
  have "\<lceil>(12 / 5 :: rat)\<rceil> = 3" by (simp add: ceiling_unique)
  moreover have "file_system (demo_env demo_srv) ''download.csv''
     = Some \<lparr>st_size = 125829120, file_lines = [demo_line, demo_line, demo_line]\<rparr>"
    by (simp add: demo_env_def demo_files_def)
  moreover have "chunk_size demo_model = 52428800" by (simp add: demo_model_def)
  ultimately show ?thesis by (simp add: upload_demo)
qed

text \<open>
  C4, on that file of 125829120 bytes: two chunk uploads are sent where rounding up the
  quotient by 52428800 gives three, and the first of them carries two whole lines, that is
  83886080 bytes.
\<close>

theorem chunk_uploads_of_demo_file:
  "filter (\<lambda>rq. rq_method rq = PUT)
     (trace (snd (upload (demo_env demo_srv) demo_model ''113000000000'' ''download.csv''
                    demo_session))) =
       [\<lparr>rq_method = PUT,
         rq_url = ''https://api.anaplan.com/2/0/workspaces/w/models/m/files/113000000000/chunks/0'',
         rq_headers = file_header demo_model,
         rq_body = DataBody (demo_line @ demo_line)\<rparr>,
        \<lparr>rq_method = PUT,
         rq_url = ''https://api.anaplan.com/2/0/workspaces/w/models/m/files/113000000000/chunks/1'',
         rq_headers = file_header demo_model,
         rq_body = DataBody demo_line\<rparr>]
   \<and> length (demo_line @ demo_line) = 83886080
   \<and> chunk_size demo_model = 52428800
   \<and> file_system (demo_env demo_srv) ''download.csv''
       = Some \<lparr>st_size = 125829120, file_lines = [demo_line, demo_line, demo_line]\<rparr>"
proof -
  have "file_system (demo_env demo_srv) ''download.csv''
     = Some \<lparr>st_size = 125829120, file_lines = [demo_line, demo_line, demo_line]\<rparr>"
    by (simp add: demo_env_def demo_files_def)
  moreover have "chunk_size demo_model = 52428800" by (simp add: demo_model_def)
  moreover have "filter (\<lambda>rq. rq_method rq = PUT)
     (trace (snd (upload (demo_env demo_srv) demo_model ''113000000000'' ''download.csv''
                    demo_session))) =
       [\<lparr>rq_method = PUT,
         rq_url = ''https://api.anaplan.com/2/0/workspaces/w/models/m/files/113000000000/chunks/0'',
         rq_headers = file_header demo_model,
         rq_body = DataBody (demo_line @ demo_line)\<rparr>,
        \<lparr>rq_method = PUT,
         rq_url = ''https://api.anaplan.com/2/0/workspaces/w/models/m/files/113000000000/chunks/1'',
         rq_headers = file_header demo_model,
         rq_body = DataBody demo_line\<rparr>]"
    unfolding upload_demo by (simp add: demo_session_def)
  ultimately show ?thesis by (simp add: length_demo_line)
qed

section \<open>Tokens: properties\<close>

text \<open>The exchanges, from what the servers answer.\<close>

lemma validate_confirmed:
  assumes "py_getitem token (KStr ''status'') = Inr st"
    and "st \<noteq> JStr ''FAILURE_BAD_CREDENTIAL''"
    and "py_getitem token (KStr ''tokenInfo'') = Inr info"
    and "py_getitem info (KStr ''tokenValue'') = Inr (JStr v)"
    and "srv e (trace w) (validate_request (''AnaplanAuthToken '' @ v)) = Inr r"
    and "rs_json r = Inr j"
    and "py_getitem j (KStr ''statusMessage'') = Inr (JStr ''Token validated'')"
  shows "validate e token w =
     (Inr (Some (''AnaplanAuthToken '' @ v)),
      w\<lparr>trace := trace w @ [validate_request (''AnaplanAuthToken '' @ v)]\<rparr>)"
  using assms by (simp add: validate_def py_concat_def send_def validate_request_def)

lemma oauth_refresh_returns:
  assumes "srv e (trace w) (oauth_request (environ (load_dotenv path w))) = Inr r"
    and "rs_json r = Inr j"
    and "py_getitem j (KStr ''refresh_token'') = Inr (JStr new)"
  shows "oauth_refresh e path w =
     (Inr j,
      (load_dotenv path w)
        \<lparr>trace := trace w @ [oauth_request (environ (load_dotenv path w))],
         dotenv := (dotenv w)(path := (dotenv w path)(''refresh_token'' \<mapsto> new))\<rparr>)"
  using assms
  by (simp add: oauth_refresh_def Let_def send_def set_key_def load_dotenv_def oauth_request_def)

lemma get_token_basic_returns:
  assumes "via self = ''basic''" and "b64creds self = Some b"
    and "srv e (trace w) (basic_request b) = Inr r" and "rs_json r = Inr payload"
    and "py_getitem payload (KStr ''status'') = Inr st"
    and "st \<noteq> JStr ''FAILURE_BAD_CREDENTIAL''"
    and "py_getitem payload (KStr ''tokenInfo'') = Inr info"
    and "py_getitem info (KStr ''tokenValue'') = Inr (JStr v)"
    and "srv e (trace w @ [basic_request b]) (validate_request (''AnaplanAuthToken '' @ v)) = Inr r2"
    and "rs_json r2 = Inr j2"
    and "py_getitem j2 (KStr ''statusMessage'') = Inr (JStr ''Token validated'')"
  shows "get_token e self w =
     (Inr (Some (''AnaplanAuthToken '' @ v)),
      self\<lparr>a_token := Some (''AnaplanAuthToken '' @ v),
           a_expires_at := Some (utcnow e (trace w @ [basic_request b,
                                   validate_request (''AnaplanAuthToken '' @ v)])
                                 + timedelta_minutes 35)\<rparr>,
      w\<lparr>trace := trace w @ [basic_request b, validate_request (''AnaplanAuthToken '' @ v)]\<rparr>)"
proof -
  let ?w1 = "w\<lparr>trace := trace w @ [basic_request b]\<rparr>"
  have "validate e payload ?w1 =
     (Inr (Some (''AnaplanAuthToken '' @ v)),
      ?w1\<lparr>trace := trace ?w1 @ [validate_request (''AnaplanAuthToken '' @ v)]\<rparr>)"
    using assms by (intro validate_confirmed) simp_all
  with assms show ?thesis
    by (simp add: get_token_def attr_def send_def basic_request_def validate_request_def)
qed

lemma get_token_certificate_returns:
  assumes "via self = ''certificate''"
    and "public_cert self = Some pub" and "private_key self = Some priv"
    and "file_system e pub = Some cert_file" and "file_system e priv = Some key_file"
    and "sign_sha512 e (concat (file_lines key_file)) (urandom e (trace w)) = Inr signed"
    and "srv e (trace w)
           (cert_request e (concat (file_lines cert_file)) (urandom e (trace w)) signed) = Inr r"
    and "rs_json r = Inr payload"
    and "py_getitem payload (KStr ''status'') = Inr st"
    and "st \<noteq> JStr ''FAILURE_BAD_CREDENTIAL''"
    and "py_getitem payload (KStr ''tokenInfo'') = Inr info"
    and "py_getitem info (KStr ''tokenValue'') = Inr (JStr v)"
    and "srv e (trace w @ [cert_request e (concat (file_lines cert_file))
                              (urandom e (trace w)) signed])
           (validate_request (''AnaplanAuthToken '' @ v)) = Inr r2"
    and "rs_json r2 = Inr j2"
    and "py_getitem j2 (KStr ''statusMessage'') = Inr (JStr ''Token validated'')"
  shows "get_token e self w =
     (Inr (Some (''AnaplanAuthToken '' @ v)),
      self\<lparr>a_token := Some (''AnaplanAuthToken '' @ v),
           a_expires_at := Some (utcnow e (trace w @
               [cert_request e (concat (file_lines cert_file)) (urandom e (trace w)) signed,
                validate_request (''AnaplanAuthToken '' @ v)])
             + timedelta_minutes 35)\<rparr>,
      w\<lparr>trace := trace w @
               [cert_request e (concat (file_lines cert_file)) (urandom e (trace w)) signed,
                validate_request (''AnaplanAuthToken '' @ v)]\<rparr>)"
proof -
  let ?rq = "cert_request e (concat (file_lines cert_file)) (urandom e (trace w)) signed"
  let ?w1 = "w\<lparr>trace := trace w @ [?rq]\<rparr>"
  have exchange: "cert_token e pub priv w = (Inr payload, ?w1)"
    using assms
    by (simp add: cert_token_def read_text_def send_def Let_def cert_request_def)
  have "validate e payload ?w1 =
     (Inr (Some (''AnaplanAuthToken '' @ v)),
      ?w1\<lparr>trace := trace ?w1 @ [validate_request (''AnaplanAuthToken '' @ v)]\<rparr>)"
    using assms by (intro validate_confirmed) simp_all
  with assms exchange show ?thesis
    by (simp add: get_token_def attr_def)
qed

lemma get_token_oauth_returns:
  assumes "via self = ''oauth_refresh''" and "file_env self = Some path"
    and "srv e (trace w) (oauth_request (environ (load_dotenv path w))) = Inr r"
    and "rs_json r = Inr j"
    and "py_getitem j (KStr ''refresh_token'') = Inr (JStr new)"
    and "py_getitem j (KStr ''access_token'') = Inr (JStr a)"
  shows "get_token e self w =
     (Inr (Some (''AnaplanAuthToken '' @ a)),
      self\<lparr>a_token := Some (''AnaplanAuthToken '' @ a),
           a_expires_at := Some (utcnow e (trace w @ [oauth_request (environ (load_dotenv path w))])
                                 + timedelta_minutes 35)\<rparr>,
      (load_dotenv path w)
        \<lparr>trace := trace w @ [oauth_request (environ (load_dotenv path w))],
         dotenv := (dotenv w)(path := (dotenv w path)(''refresh_token'' \<mapsto> new))\<rparr>)"
  using assms oauth_refresh_returns [OF assms(3) assms(4) assms(5)]
  by (simp add: get_token_def attr_def py_concat_def)

text \<open>
  C9. For each of the three credential kinds: when the servers answer the exchange with a
  token (and, for the basic and the certificate kind, confirm it at the validation
  endpoint), \<open>get_token\<close> returns the bearer token and leaves the object holding it
  together with an expiry that is the clock reading of that call plus 35 minutes, hence
  strictly later than that reading. And whatever a \<open>get_token\<close> of one of the three kinds
  returns, the object holds just that with such an expiry. The clock is read at the history
  the call ends with: no request is sent between the reading and the return.
\<close>

theorem get_token_expiry_in_future:
  "(via self \<in> {''basic'', ''certificate'', ''oauth_refresh''}
      \<and> get_token e self w = (Inr tok, self', w')
    \<longrightarrow> a_token self' = tok
      \<and> a_expires_at self' = Some (utcnow e (trace w') + timedelta_minutes 35)
      \<and> utcnow e (trace w') < utcnow e (trace w') + timedelta_minutes 35)
   \<and> (via self = ''basic'' \<and> b64creds self = Some b
      \<and> srv e (trace w) (basic_request b) = Inr r \<and> rs_json r = Inr payload
      \<and> py_getitem payload (KStr ''status'') = Inr st
      \<and> st \<noteq> JStr ''FAILURE_BAD_CREDENTIAL''
      \<and> py_getitem payload (KStr ''tokenInfo'') = Inr info
      \<and> py_getitem info (KStr ''tokenValue'') = Inr (JStr v)
      \<and> srv e (trace w @ [basic_request b])
            (validate_request (''AnaplanAuthToken '' @ v)) = Inr r2
      \<and> rs_json r2 = Inr j2
      \<and> py_getitem j2 (KStr ''statusMessage'') = Inr (JStr ''Token validated'')
    \<longrightarrow> get_token e self w =
         (Inr (Some (''AnaplanAuthToken '' @ v)),
          self\<lparr>a_token := Some (''AnaplanAuthToken '' @ v),
               a_expires_at := Some (utcnow e (trace w @ [basic_request b,
                                       validate_request (''AnaplanAuthToken '' @ v)])
                                     + timedelta_minutes 35)\<rparr>,
          w\<lparr>trace := trace w @ [basic_request b,
                                 validate_request (''AnaplanAuthToken '' @ v)]\<rparr>)
      \<and> utcnow e (trace w @ [basic_request b, validate_request (''AnaplanAuthToken '' @ v)])
          < utcnow e (trace w @ [basic_request b, validate_request (''AnaplanAuthToken '' @ v)])
            + timedelta_minutes 35)
   \<and> (via self = ''certificate''
      \<and> public_cert self = Some pub \<and> private_key self = Some priv
      \<and> file_system e pub = Some cert_file \<and> file_system e priv = Some key_file
      \<and> sign_sha512 e (concat (file_lines key_file)) (urandom e (trace w)) = Inr signed
      \<and> srv e (trace w)
            (cert_request e (concat (file_lines cert_file)) (urandom e (trace w)) signed) = Inr r
      \<and> rs_json r = Inr payload
      \<and> py_getitem payload (KStr ''status'') = Inr st
      \<and> st \<noteq> JStr ''FAILURE_BAD_CREDENTIAL''
      \<and> py_getitem payload (KStr ''tokenInfo'') = Inr info
      \<and> py_getitem info (KStr ''tokenValue'') = Inr (JStr v)
      \<and> srv e (trace w @ [cert_request e (concat (file_lines cert_file))
                               (urandom e (trace w)) signed])
            (validate_request (''AnaplanAuthToken '' @ v)) = Inr r2
      \<and> rs_json r2 = Inr j2
      \<and> py_getitem j2 (KStr ''statusMessage'') = Inr (JStr ''Token validated'')
    \<longrightarrow> get_token e self w =
         (Inr (Some (''AnaplanAuthToken '' @ v)),
          self\<lparr>a_token := Some (''AnaplanAuthToken '' @ v),
               a_expires_at := Some (utcnow e (trace w @
                   [cert_request e (concat (file_lines cert_file)) (urandom e (trace w)) signed,
                    validate_request (''AnaplanAuthToken '' @ v)])
                 + timedelta_minutes 35)\<rparr>,
          w\<lparr>trace := trace w @
                   [cert_request e (concat (file_lines cert_file)) (urandom e (trace w)) signed,
                    validate_request (''AnaplanAuthToken '' @ v)]\<rparr>)
      \<and> utcnow e (trace w @
                   [cert_request e (concat (file_lines cert_file)) (urandom e (trace w)) signed,
                    validate_request (''AnaplanAuthToken '' @ v)])
          < utcnow e (trace w @
                   [cert_request e (concat (file_lines cert_file)) (urandom e (trace w)) signed,
                    validate_request (''AnaplanAuthToken '' @ v)])
            + timedelta_minutes 35)
   \<and> (via self = ''oauth_refresh'' \<and> file_env self = Some path
      \<and> srv e (trace w) (oauth_request (environ (load_dotenv path w))) = Inr r
      \<and> rs_json r = Inr j
      \<and> py_getitem j (KStr ''refresh_token'') = Inr (JStr new)
      \<and> py_getitem j (KStr ''access_token'') = Inr (JStr a)
    \<longrightarrow> get_token e self w =
         (Inr (Some (''AnaplanAuthToken '' @ a)),
          self\<lparr>a_token := Some (''AnaplanAuthToken '' @ a),
               a_expires_at := Some (utcnow e (trace w @
                                        [oauth_request (environ (load_dotenv path w))])
                                     + timedelta_minutes 35)\<rparr>,
          (load_dotenv path w)
            \<lparr>trace := trace w @ [oauth_request (environ (load_dotenv path w))],
             dotenv := (dotenv w)(path := (dotenv w path)(''refresh_token'' \<mapsto> new))\<rparr>)
      \<and> utcnow e (trace w @ [oauth_request (environ (load_dotenv path w))])
          < utcnow e (trace w @ [oauth_request (environ (load_dotenv path w))])
            + timedelta_minutes 35)"
proof (intro conjI impI; (elim conjE)?)
  assume "via self \<in> {''basic'', ''certificate'', ''oauth_refresh''}"
    and "get_token e self w = (Inr tok, self', w')"
  then show "a_token self' = tok"
    and "a_expires_at self' = Some (utcnow e (trace w') + timedelta_minutes 35)"
    by (auto simp: get_token_def split: if_splits prod.splits sum.splits)
qed ((rule get_token_basic_returns get_token_certificate_returns get_token_oauth_returns;
      assumption)
     | simp add: timedelta_minutes_def)+

theorem get_token_expiry_in_future_witness:
  "get_token (demo_env demo_srv) basic_login demo_world =
       (Inr (Some ''AnaplanAuthToken T0''),
        basic_login\<lparr>a_token := Some ''AnaplanAuthToken T0'',
                    a_expires_at := Some 1700002102000000\<rparr>,
        demo_session)
   \<and> utcnow (demo_env demo_srv) (trace demo_session) = 1700000002000000
   \<and> fst (get_token cert_env cert_login demo_world) = Inr (Some ''AnaplanAuthToken T0'')
   \<and> a_expires_at (fst (snd (get_token cert_env cert_login demo_world)))
       = Some 1700002102000000
   \<and> utcnow cert_env (trace (snd (snd (get_token cert_env cert_login demo_world))))
       = 1700000002000000
   \<and> fst (get_token (demo_env demo_srv) oauth_login demo_world)
       = Inr (Some ''AnaplanAuthToken A0'')
   \<and> a_expires_at (fst (snd (get_token (demo_env demo_srv) oauth_login demo_world)))
       = Some 1700002101000000
   \<and> utcnow (demo_env demo_srv)
         (trace (snd (snd (get_token (demo_env demo_srv) oauth_login demo_world))))
       = 1700000001000000"
proof -
  let ?payload = "JObj [(''status'', JStr ''SUCCESS''),
                        (''tokenInfo'', JObj [(''tokenValue'', JStr ''T0'')])]"
  let ?confirmed = "JObj [(''statusMessage'', JStr ''Token validated'')]"
  let ?issued = "JObj [(''access_token'', JStr ''A0''), (''refresh_token'', JStr ''R0'')]"
  have basic:
    "get_token (demo_env demo_srv) basic_login demo_world =
       (Inr (Some ''AnaplanAuthToken T0''),
        basic_login\<lparr>a_token := Some ''AnaplanAuthToken T0'',
                    a_expires_at := Some 1700002102000000\<rparr>,
        demo_session)
     \<and> utcnow (demo_env demo_srv) (trace demo_session) = 1700000002000000"
    using get_token_expiry_in_future
      [where self = basic_login and e = "demo_env demo_srv" and w = demo_world
         and b = "''b64:user:pw''" and payload = ?payload
         and r = "\<lparr>rs_ok = True, rs_json = Inr ?payload\<rparr>"
         and st = "JStr ''SUCCESS''" and info = "JObj [(''tokenValue'', JStr ''T0'')]"
         and v = "''T0''" and ?r2.0 = "\<lparr>rs_ok = True, rs_json = Inr ?confirmed\<rparr>"
         and ?j2.0 = ?confirmed, THEN conjunct2, THEN conjunct1]
    by (simp add: basic_login_def demo_env_def demo_srv_def demo_world_def demo_session_def
        ok_response_def basic_request_def validate_request_def timedelta_minutes_def
        str_nat_digit digit_char_def)
  have certificate:
    "fst (get_token cert_env cert_login demo_world) = Inr (Some ''AnaplanAuthToken T0'')
     \<and> a_expires_at (fst (snd (get_token cert_env cert_login demo_world)))
         = Some 1700002102000000
     \<and> utcnow cert_env (trace (snd (snd (get_token cert_env cert_login demo_world))))
         = 1700000002000000"
    using get_token_expiry_in_future
      [where self = cert_login and e = cert_env and w = demo_world
         and pub = "''cert.pem''" and priv = "''key.pem''"
         and cert_file = "\<lparr>st_size = 62,
              file_lines = [''-----BEGIN CERTIFICATE-----'' @ [CHR 0x0A],
                            ''MIIB'' @ [CHR 0x0A],
                            ''-----END CERTIFICATE-----'' @ [CHR 0x0A]]\<rparr>"
         and key_file = "\<lparr>st_size = 4, file_lines = [''KEY'' @ [CHR 0x0A]]\<rparr>"
         and signed = "''signature''" and payload = ?payload
         and r = "\<lparr>rs_ok = True, rs_json = Inr ?payload\<rparr>"
         and st = "JStr ''SUCCESS''" and info = "JObj [(''tokenValue'', JStr ''T0'')]"
         and v = "''T0''" and ?r2.0 = "\<lparr>rs_ok = True, rs_json = Inr ?confirmed\<rparr>"
         and ?j2.0 = ?confirmed, THEN conjunct2, THEN conjunct2, THEN conjunct1]
    by (simp add: cert_login_def cert_env_def cert_files_def demo_env_def demo_srv_def
        demo_world_def ok_response_def cert_request_def validate_request_def
        timedelta_minutes_def str_nat_digit digit_char_def)
  have rotating:
    "fst (get_token (demo_env demo_srv) oauth_login demo_world)
         = Inr (Some ''AnaplanAuthToken A0'')
     \<and> a_expires_at (fst (snd (get_token (demo_env demo_srv) oauth_login demo_world)))
         = Some 1700002101000000
     \<and> utcnow (demo_env demo_srv)
           (trace (snd (snd (get_token (demo_env demo_srv) oauth_login demo_world))))
         = 1700000001000000"
    using get_token_expiry_in_future
      [where self = oauth_login and e = "demo_env demo_srv" and w = demo_world
         and path = "''creds.env''" and j = ?issued
         and r = "\<lparr>rs_ok = True, rs_json = Inr ?issued\<rparr>"
         and new = "''R0''" and a = "''A0''",
         THEN conjunct2, THEN conjunct2, THEN conjunct2]
    by (simp add: oauth_login_def demo_env_def demo_srv_def demo_world_def ok_response_def
        oauth_request_def load_dotenv_def timedelta_minutes_def str_nat_digit digit_char_def)
  from basic certificate rotating show ?thesis by simp
qed

text \<open>
  C6. When the server answers the exchange of the refresh secret with a document \<open>j\<close>
  whose \<^verbatim>\<open>refresh_token\<close> is the string \<open>new\<close>, \<open>oauth_refresh\<close> returns \<open>j\<close> in
  a world whose dot-env file holds exactly \<open>new\<close> under \<^verbatim>\<open>refresh_token\<close>, whatever it
  held before. The write comes before anything is handed on: \<open>get_token\<close> of a
  rotating-secret login ends in that very world, whether it goes on to return the bearer
  token or raises while building it.
\<close>

theorem oauth_refresh_persists_before_return:
  assumes "srv e (trace w) (oauth_request (environ (load_dotenv path w))) = Inr r"
    and "rs_json r = Inr j"
    and "py_getitem j (KStr ''refresh_token'') = Inr (JStr new)"
  shows "(let w1 = (load_dotenv path w)
                     \<lparr>trace := trace w @ [oauth_request (environ (load_dotenv path w))],
                      dotenv := (dotenv w)(path := (dotenv w path)(''refresh_token'' \<mapsto> new))\<rparr>
          in oauth_refresh e path w = (Inr j, w1)
             \<and> dotenv w1 path ''refresh_token'' = Some new
             \<and> (via self = ''oauth_refresh'' \<and> file_env self = Some path
                  \<longrightarrow> snd (snd (get_token e self w)) = w1))"
proof -
  let ?w1 = "(load_dotenv path w)
               \<lparr>trace := trace w @ [oauth_request (environ (load_dotenv path w))],
                dotenv := (dotenv w)(path := (dotenv w path)(''refresh_token'' \<mapsto> new))\<rparr>"
  have returned: "oauth_refresh e path w = (Inr j, ?w1)"
    using assms by (rule oauth_refresh_returns)
  have stored: "dotenv ?w1 path ''refresh_token'' = Some new" by simp
  have handed_on: "via self = ''oauth_refresh'' \<and> file_env self = Some path
      \<longrightarrow> snd (snd (get_token e self w)) = ?w1"
    using returned
    by (auto simp: get_token_def attr_def bind_def split: sum.splits prod.splits)
  from returned stored handed_on show ?thesis by (simp add: Let_def)
qed

theorem oauth_refresh_persists_before_return_witness:
  "srv (demo_env demo_srv) (trace demo_world)
       (oauth_request (environ (load_dotenv ''creds.env'' demo_world)))
     = Inr \<lparr>rs_ok = True,
            rs_json = Inr (JObj [(''access_token'', JStr ''A0''),
                                 (''refresh_token'', JStr ''R0'')])\<rparr>
   \<and> dotenv demo_world ''creds.env'' ''refresh_token'' = Some ''R-old''
   \<and> fst (oauth_refresh (demo_env demo_srv) ''creds.env'' demo_world)
       = Inr (JObj [(''access_token'', JStr ''A0''), (''refresh_token'', JStr ''R0'')])
   \<and> dotenv (snd (oauth_refresh (demo_env demo_srv) ''creds.env'' demo_world))
         ''creds.env'' ''refresh_token'' = Some ''R0''
   \<and> snd (snd (get_token (demo_env demo_srv) oauth_login demo_world))
       = snd (oauth_refresh (demo_env demo_srv) ''creds.env'' demo_world)"
proof -
  let ?j = "JObj [(''access_token'', JStr ''A0''), (''refresh_token'', JStr ''R0'')]"
  have h1: "srv (demo_env demo_srv) (trace demo_world)
       (oauth_request (environ (load_dotenv ''creds.env'' demo_world)))
     = Inr \<lparr>rs_ok = True, rs_json = Inr ?j\<rparr>"
    by (simp add: demo_env_def demo_srv_def demo_world_def oauth_request_def ok_response_def
        str_nat_digit digit_char_def)
  have h2: "rs_json \<lparr>rs_ok = True, rs_json = Inr ?j\<rparr> = Inr ?j" by simp
  have h3: "py_getitem ?j (KStr ''refresh_token'') = Inr (JStr ''R0'')" by simp
  have old: "dotenv demo_world ''creds.env'' ''refresh_token'' = Some ''R-old''"
    by (simp add: demo_world_def)
  have login: "via oauth_login = ''oauth_refresh'' \<and> file_env oauth_login = Some ''creds.env''"
    by (simp add: oauth_login_def)
  from oauth_refresh_persists_before_return [OF h1 h2 h3, of oauth_login] login h1 old
  show ?thesis by (simp add: Let_def)
qed

text \<open>
  The branch of \<open>validate\<close> that raises: a payload whose status is
  \<^verbatim>\<open>FAILURE_BAD_CREDENTIAL\<close> ends in SystemError before any request is sent.
\<close>

lemma validate_bad_credential:
  "py_getitem token (KStr ''status'') = Inr (JStr ''FAILURE_BAD_CREDENTIAL'') \<Longrightarrow>
     validate e token w = (Inl SystemError, w)"
  by (simp add: validate_def)

text \<open>
  C3, at a payload the validation endpoint does not confirm: \<open>validate\<close> returns, with
  \<open>None\<close> where the token would be, and raises nothing; \<open>get_token\<close> stores that
  \<open>None\<close> as the token together with a fresh expiry and returns it.
\<close>

theorem validate_unconfirmed_returns_none:
  "validate (demo_env strict_srv)
       (JObj [(''status'', JStr ''SUCCESS''), (''tokenInfo'', JObj [(''tokenValue'', JStr ''T'')])])
       demo_world =
     (Inr None,
      demo_world\<lparr>trace :=
        [\<lparr>rq_method = GET, rq_url = ''https://auth.anaplan.com/token/validate'',
          rq_headers = [(''Authorization'', Some ''AnaplanAuthToken T'')], rq_body = NoBody\<rparr>]\<rparr>)
   \<and> get_token (demo_env strict_srv) basic_login demo_world =
     (Inr None,
      basic_login\<lparr>a_token := None, a_expires_at := Some 1700002102000000\<rparr>,
      demo_world\<lparr>trace :=
        [\<lparr>rq_method = POST, rq_url = ''https://auth.anaplan.com/token/authenticate'',
          rq_headers = [(''Authorization'', Some ''Basic b64:user:pw'')], rq_body = NoBody\<rparr>,
         \<lparr>rq_method = GET, rq_url = ''https://auth.anaplan.com/token/validate'',
          rq_headers = [(''Authorization'', Some ''AnaplanAuthToken T'')], rq_body = NoBody\<rparr>]\<rparr>)"
  by (simp add: get_token_def basic_login_def demo_env_def demo_world_def
      strict_srv_def ok_response_def attr_def send_def validate_def py_concat_def
      timedelta_minutes_def)

text \<open>
  \<open>model_get_token\<close> assigns to the token value and the expiry only: the four header
  dicts every request method sends are those the constructor built.
\<close>

lemma model_get_token_keeps_headers:
  "header (fst (snd (model_get_token e self w))) = header self
   \<and> task_header (fst (snd (model_get_token e self w))) = task_header self
   \<and> json_header (fst (snd (model_get_token e self w))) = json_header self
   \<and> file_header (fst (snd (model_get_token e self w))) = file_header self"
  by (simp add: model_get_token_def split: prod.splits sum.splits)

text \<open>
  C2, in a session where the server issues a new token at every exchange: the constructor
  caches the headers with the first token \<open>T0\<close>; \<open>model_get_token\<close> then obtains \<open>T2\<close>
  and stores it as the token value of both objects; the request \<open>run\<close> sends afterwards
  still carries \<open>T0\<close>.
\<close>

theorem request_after_refresh_carries_first_token:
  "model_init (demo_env demo_srv) basic_login ''w'' ''m'' demo_world = (Inr demo_model, demo_session)
   \<and> (\<exists>refreshed w2.
        model_get_token (demo_env demo_srv) demo_model demo_session = (Inr (), refreshed, w2)
        \<and> token_value refreshed = Some ''AnaplanAuthToken T2''
        \<and> a_token (login refreshed) = Some ''AnaplanAuthToken T2''
        \<and> rq_headers (last (trace (snd (run (demo_env demo_srv) refreshed ''118000000000'' w2))))
            = [(''Authorization'', Some ''AnaplanAuthToken T0''),
               (''Content-Type'', Some ''application/json'')])"
proof (rule conjI [OF model_init_demo], intro exI, rule conjI [OF model_get_token_demo])
  show "token_value (demo_model\<lparr>login := basic_login\<lparr>a_token := Some ''AnaplanAuthToken T2'',
                                         a_expires_at := Some 1700002104000000\<rparr>,
                  token_value := Some ''AnaplanAuthToken T2'',
                  expires_at := Some 1700002104000000\<rparr>) = Some ''AnaplanAuthToken T2''
   \<and> a_token (login (demo_model\<lparr>login := basic_login\<lparr>a_token := Some ''AnaplanAuthToken T2'',
                                         a_expires_at := Some 1700002104000000\<rparr>,
                  token_value := Some ''AnaplanAuthToken T2'',
                  expires_at := Some 1700002104000000\<rparr>)) = Some ''AnaplanAuthToken T2''
   \<and> rq_headers (last (trace (snd (run (demo_env demo_srv)
         (demo_model\<lparr>login := basic_login\<lparr>a_token := Some ''AnaplanAuthToken T2'',
                                         a_expires_at := Some 1700002104000000\<rparr>,
                  token_value := Some ''AnaplanAuthToken T2'',
                  expires_at := Some 1700002104000000\<rparr>)
         ''118000000000''
         (demo_session\<lparr>trace := trace demo_session @
        [\<lparr>rq_method = POST, rq_url = ''https://auth.anaplan.com/token/authenticate'',
          rq_headers = [(''Authorization'', Some ''Basic b64:user:pw'')], rq_body = NoBody\<rparr>,
         \<lparr>rq_method = GET, rq_url = ''https://auth.anaplan.com/token/validate'',
          rq_headers = [(''Authorization'', Some ''AnaplanAuthToken T2'')], rq_body = NoBody\<rparr>]\<rparr>)))))
            = [(''Authorization'', Some ''AnaplanAuthToken T0''),
               (''Content-Type'', Some ''application/json'')]"
    by (simp add: run_def send_def demo_model_def demo_env_def demo_srv_def ok_response_def)
qed

end
